theory Spec2Isabelle
  imports Complex_Main
begin

section \<open>JavaScript values used by the tracker\<close>

text \<open>
  The amounts, the durations and the reward counter of \<^verbatim>\<open>src/Website.jsx\<close> are
  JavaScript numbers: IEEE-754 doubles. \<open>Fin r\<close> is the finite double whose value is the
  rational \<open>r\<close>; the negative zero is not told apart from zero. A sum is rounded to the
  nearest double, ties to the even significand; it overflows to an infinity from
  \<open>2 ^ 1024\<close> on. \<^verbatim>\<open>NaN\<close> absorbs, and the sum of opposite infinities is \<^verbatim>\<open>NaN\<close>.
\<close>

datatype jsnum = NaN | PosInf | NegInf | Fin rat

definition pow2 :: "int \<Rightarrow> rat" where
  "pow2 k = (if 0 \<le> k then 2 ^ nat k else 1 / 2 ^ nat (- k))"

text \<open>
  The binary exponent of a positive rational \<open>a\<close>: the \<open>e\<close> with
  \<open>2 ^ e \<le> a < 2 ^ (e + 1)\<close>, found by halving or doubling, and kept between -1022 (below
  it the doubles are subnormal and keep that spacing) and 1024 (where they overflow).
\<close>

primrec halvings :: "nat \<Rightarrow> rat \<Rightarrow> nat" where
  "halvings 0 a = 0"
| "halvings (Suc n) a = (if 2 \<le> a then Suc (halvings n (a / 2)) else 0)"

primrec doublings :: "nat \<Rightarrow> rat \<Rightarrow> nat" where
  "doublings 0 a = 0"
| "doublings (Suc n) a = (if a < 1 then Suc (doublings n (2 * a)) else 0)"

definition exponent :: "rat \<Rightarrow> int" where
  "exponent a = (if 1 \<le> a then int (halvings 1024 a) else - int (doublings 1022 a))"

definition round_half_even :: "rat \<Rightarrow> int" where
  "round_half_even y =
     (let f = \<lfloor>y\<rfloor>; d = y - of_int f
      in if d < 1 / 2 then f else if 1 / 2 < d then f + 1 else if even f then f else f + 1)"

text \<open>
  The double nearest to a positive rational: a whole multiple of the spacing
  \<open>2 ^ (e - 52)\<close> of the doubles with exponent \<open>e\<close>. \<open>None\<close> is the overflow: the exponent
  is 1024, or it is 1023 and the significand rounds up to \<open>2 ^ 53\<close>.
\<close>

definition round_magnitude :: "rat \<Rightarrow> rat option" where
  "round_magnitude a =
     (let e = exponent a;
          u = pow2 (e - 52);
          n = round_half_even (a / u)
      in if 1024 \<le> e \<or> (e = 1023 \<and> n = 2 ^ 53) then None else Some (of_int n * u))"

definition round_double :: "rat \<Rightarrow> jsnum" where
  "round_double x =
     (if x = 0 then Fin 0
      else case round_magnitude \<bar>x\<bar> of
             None \<Rightarrow> if 0 < x then PosInf else NegInf
           | Some r \<Rightarrow> Fin (if 0 < x then r else - r))"

instantiation jsnum :: "{zero, plus, uminus, minus}"
begin

definition zero_jsnum :: jsnum where
  "zero_jsnum = Fin 0"

fun plus_jsnum :: "jsnum \<Rightarrow> jsnum \<Rightarrow> jsnum" where
  "plus_jsnum NaN y = NaN"
| "plus_jsnum x NaN = NaN"
| "plus_jsnum PosInf NegInf = NaN"
| "plus_jsnum NegInf PosInf = NaN"
| "plus_jsnum PosInf y = PosInf"
| "plus_jsnum x PosInf = PosInf"
| "plus_jsnum NegInf y = NegInf"
| "plus_jsnum x NegInf = NegInf"
| "plus_jsnum (Fin a) (Fin b) = round_double (a + b)"

fun uminus_jsnum :: "jsnum \<Rightarrow> jsnum" where
  "uminus_jsnum NaN = NaN"
| "uminus_jsnum PosInf = NegInf"
| "uminus_jsnum NegInf = PosInf"
| "uminus_jsnum (Fin a) = Fin (- a)"

definition minus_jsnum :: "jsnum \<Rightarrow> jsnum \<Rightarrow> jsnum" where
  "minus_jsnum x y = x + (- y)"

instance ..

end

text \<open>
  A property of a JavaScript object that may be missing (\<^verbatim>\<open>undefined\<close>), hold
  \<^verbatim>\<open>null\<close>, or hold a value.
\<close>

datatype 'a jsopt = Undefined | Null | Val 'a

text \<open>\<^verbatim>\<open>x || []\<close> on an optional array: the array itself when there is one.\<close>

definition or_empty :: "'a list jsopt \<Rightarrow> 'a list" where
  "or_empty x = (case x of Val xs \<Rightarrow> xs | _ \<Rightarrow> [])"

text \<open>
  \<^verbatim>\<open>x?.includes(v)\<close> used as a condition: \<^verbatim>\<open>undefined\<close> (falsy) when the array is
  missing or null.
\<close>

definition opt_includes :: "'a list jsopt \<Rightarrow> 'a \<Rightarrow> bool" where
  "opt_includes x v = (case x of Val xs \<Rightarrow> v \<in> set xs | _ \<Rightarrow> False)"

subsection \<open>The value of the reward counter\<close>

text \<open>
  The state \<^verbatim>\<open>rewards\<close> starts as the number 0, but an import stores whatever truthy
  value the document holds under \<^verbatim>\<open>rewards\<close>: a number, a string, \<^verbatim>\<open>true\<close>, or an array
  or object, which is given here by the text its conversion to a primitive yields (the
  only thing \<^verbatim>\<open>+\<close> reads of it).
\<close>

datatype reward_value = RNum jsnum | RStr string | RBool bool | RObj string

definition digit_char :: "nat \<Rightarrow> char" where
  "digit_char n = ''0123456789'' ! (n mod 10)"

text \<open>The text of a whole number below \<open>10 ^ 21\<close>: its decimal digits.\<close>

fun decimal :: "nat \<Rightarrow> string" where
  "decimal n = (if n < 10 then [digit_char n] else decimal (n div 10) @ [digit_char (n mod 10)])"

text \<open>
  \<^verbatim>\<open>v + k\<close> for a whole number \<open>k\<close>: a number or a boolean is added to as a number; a
  string, and an array or object through its text, is concatenated with the text of \<open>k\<close>.
\<close>

definition plus_number :: "reward_value \<Rightarrow> nat \<Rightarrow> reward_value" where
  "plus_number v k =
     (case v of
        RNum x \<Rightarrow> RNum (x + Fin (of_nat k))
      | RBool b \<Rightarrow> RNum ((if b then Fin 1 else Fin 0) + Fin (of_nat k))
      | RStr t \<Rightarrow> RStr (t @ decimal k)
      | RObj t \<Rightarrow> RStr (t @ decimal k))"

text \<open>
  The truthiness of such a value: a number unless it is 0 or \<^verbatim>\<open>NaN\<close>, a string unless it
  is empty, \<^verbatim>\<open>true\<close>, and every array or object.
\<close>

definition truthy :: "reward_value \<Rightarrow> bool" where
  "truthy v =
     (case v of
        RNum x \<Rightarrow> x \<noteq> Fin 0 \<and> x \<noteq> NaN
      | RStr t \<Rightarrow> t \<noteq> []
      | RBool b \<Rightarrow> b
      | RObj t \<Rightarrow> True)"

section \<open>The data model\<close>

text \<open>
  An instant is its number of milliseconds since the epoch. \<^verbatim>\<open>Date.now()\<close> returns
  it as a number; \<^verbatim>\<open>new Date().toISOString()\<close> writes it as a string that
  \<^verbatim>\<open>new Date(...)\<close> reads back to the same instant, so the ISO strings held in the
  entities are modelled by the instants they denote.
\<close>

type_synonym timestamp = int

record habit =
  habit_id :: int
  habit_name :: string
  habit_completedDates :: "string list jsopt"
  habit_createdAt :: timestamp

record todo =
  todo_id :: int
  todo_task :: string
  todo_completed :: bool
  todo_photo :: "string jsopt"
  todo_createdAt :: timestamp

record expense =
  expense_id :: int
  expense_description :: string
  expense_amount :: jsnum
  expense_category :: string
  expense_date :: timestamp

record note_item =
  note_id :: int
  note_title :: string
  note_content :: string
  note_createdAt :: timestamp

record memory =
  memory_id :: int
  memory_title :: string
  memory_photo :: string
  memory_createdAt :: timestamp

record loan =
  loan_id :: int
  loan_personName :: string
  loan_amount :: jsnum
  loan_note :: string
  loan_returned :: bool
  loan_dateGiven :: timestamp
  loan_dateReturned :: "timestamp jsopt"

record sleepSession =
  sleep_id :: int
  sleep_duration :: jsnum
  sleep_isAfternoon :: bool
  sleep_date :: timestamp

text \<open>
  The state of the component \<^verbatim>\<open>SoumikLifestyle\<close>: the eight values held by
  \<^verbatim>\<open>useLocalStorage\<close>. A state setter called with an updater function applies it to
  the previous value; the model passes the store through each operation.
\<close>

record store =
  habits :: "habit list"
  todos :: "todo list"
  expenses :: "expense list"
  "notes" :: "note_item list"
  memories :: "memory list"
  loans :: "loan list"
  rewards :: reward_value
  sleepSessions :: "sleepSession list"

definition initial_store :: store where
  "initial_store =
     \<lparr>habits = [], todos = [], expenses = [], notes = [], memories = [], loans = [],
      rewards = RNum 0, sleepSessions = []\<rparr>"

text \<open>
  What the host decides about dates: the calendar day, in the local time zone, on which
  an instant falls (a day number), the text \<^verbatim>\<open>toDateString\<close> prints for a calendar
  day, and the text \<^verbatim>\<open>toLocaleDateString('en-US', {month: 'short', day: 'numeric'})\<close>
  prints for it.
\<close>

record host =
  localDay :: "timestamp \<Rightarrow> int"
  dayString :: "int \<Rightarrow> string"
  dayLabel :: "int \<Rightarrow> string"

text \<open>\<^verbatim>\<open>new Date(t).toDateString()\<close>.\<close>

definition toDateString :: "host \<Rightarrow> timestamp \<Rightarrow> string" where
  "toDateString h t = dayString h (localDay h t)"

section \<open>Mutators\<close>

text \<open>
  Every \<^verbatim>\<open>add\<close> reads the clock twice: \<^verbatim>\<open>Date.now()\<close> for the id (\<open>now\<close>) and
  \<^verbatim>\<open>new Date().toISOString()\<close> for the time stamp (\<open>stamp\<close>). The new entity goes
  to the end of its collection (\<^verbatim>\<open>[...prev, newEntity]\<close>). The three that store a number
  take it from the host's \<^verbatim>\<open>parseFloat\<close>, a parameter here.
\<close>

definition addHabit :: "int \<Rightarrow> timestamp \<Rightarrow> string \<Rightarrow> store \<Rightarrow> store" where
  "addHabit now stamp name s =
     (let newHabit = \<lparr>habit_id = now, habit_name = name, habit_completedDates = Val [],
                       habit_createdAt = stamp\<rparr>
      in s\<lparr>habits := habits s @ [newHabit]\<rparr>)"

definition addTodo :: "int \<Rightarrow> timestamp \<Rightarrow> string \<Rightarrow> store \<Rightarrow> store" where
  "addTodo now stamp task s =
     (let newTodo = \<lparr>todo_id = now, todo_task = task, todo_completed = False,
                      todo_photo = Null, todo_createdAt = stamp\<rparr>
      in s\<lparr>todos := todos s @ [newTodo]\<rparr>)"

definition addExpense ::
  "(string \<Rightarrow> jsnum) \<Rightarrow> int \<Rightarrow> timestamp \<Rightarrow> string \<Rightarrow> string \<Rightarrow> string \<Rightarrow> store \<Rightarrow> store" where
  "addExpense parseFloat now stamp description amount category s =
     (let newExpense = \<lparr>expense_id = now, expense_description = description,
                         expense_amount = parseFloat amount, expense_category = category,
                         expense_date = stamp\<rparr>
      in s\<lparr>expenses := expenses s @ [newExpense]\<rparr>)"

definition addNote :: "int \<Rightarrow> timestamp \<Rightarrow> string \<Rightarrow> string \<Rightarrow> store \<Rightarrow> store" where
  "addNote now stamp title content s =
     (let newNote = \<lparr>note_id = now, note_title = title, note_content = content,
                      note_createdAt = stamp\<rparr>
      in s\<lparr>notes := notes s @ [newNote]\<rparr>)"

text \<open>
  \<^verbatim>\<open>addMemory\<close> changes the store in the \<^verbatim>\<open>onload\<close> callback of the file reader; this is
  that callback, with \<open>photo\<close> the data URL that was read.
\<close>

definition addMemory :: "int \<Rightarrow> timestamp \<Rightarrow> string \<Rightarrow> string \<Rightarrow> store \<Rightarrow> store" where
  "addMemory now stamp title photo s =
     (let newMemory = \<lparr>memory_id = now, memory_title = title, memory_photo = photo,
                        memory_createdAt = stamp\<rparr>
      in s\<lparr>memories := memories s @ [newMemory]\<rparr>)"

text \<open>A new loan has no \<^verbatim>\<open>dateReturned\<close> property.\<close>

definition addLoan ::
  "(string \<Rightarrow> jsnum) \<Rightarrow> int \<Rightarrow> timestamp \<Rightarrow> string \<Rightarrow> string \<Rightarrow> string \<Rightarrow> store \<Rightarrow> store" where
  "addLoan parseFloat now stamp personName amount note' s =
     (let newLoan = \<lparr>loan_id = now, loan_personName = personName,
                      loan_amount = parseFloat amount, loan_note = note',
                      loan_returned = False, loan_dateGiven = stamp,
                      loan_dateReturned = Undefined\<rparr>
      in s\<lparr>loans := loans s @ [newLoan]\<rparr>)"

definition addSleepSession ::
  "(string \<Rightarrow> jsnum) \<Rightarrow> int \<Rightarrow> timestamp \<Rightarrow> string \<Rightarrow> bool \<Rightarrow> store \<Rightarrow> store" where
  "addSleepSession parseFloat now stamp duration isAfternoon s =
     (let newSession = \<lparr>sleep_id = now, sleep_duration = parseFloat duration,
                         sleep_isAfternoon = isAfternoon, sleep_date = stamp\<rparr>
      in s\<lparr>sleepSessions := sleepSessions s @ [newSession]\<rparr>)"

text \<open>
  \<^verbatim>\<open>toggleHabit\<close> and \<^verbatim>\<open>toggleTodo\<close> call \<^verbatim>\<open>setRewards(prev => prev + k)\<close> from inside
  the callback of \<^verbatim>\<open>prev.map\<close>: once for each element that takes that branch. The map
  therefore threads the reward counter through the elements, left to right. Each updater
  passed to a setter is applied once to the previous value, as React does outside the
  double invocation of its development Strict Mode.
\<close>

fun map_rewards ::
  "('a \<Rightarrow> reward_value \<Rightarrow> 'a \<times> reward_value) \<Rightarrow> 'a list \<Rightarrow> reward_value
     \<Rightarrow> 'a list \<times> reward_value" where
  "map_rewards f [] r = ([], r)"
| "map_rewards f (x # xs) r =
     (case f x r of (y, r1) \<Rightarrow>
        (case map_rewards f xs r1 of (ys, r2) \<Rightarrow> (y # ys, r2)))"

definition toggleHabit_callback ::
  "int \<Rightarrow> string \<Rightarrow> habit \<Rightarrow> reward_value \<Rightarrow> habit \<times> reward_value" where
  "toggleHabit_callback id' today h r =
     (if habit_id h = id' then
        (let dates = or_empty (habit_completedDates h)
         in if today \<in> set dates
            then (h\<lparr>habit_completedDates := Val (filter (\<lambda>d. d \<noteq> today) dates)\<rparr>, r)
            else (h\<lparr>habit_completedDates := Val (dates @ [today])\<rparr>, plus_number r 10))
      else (h, r))"

definition toggleHabit :: "host \<Rightarrow> timestamp \<Rightarrow> int \<Rightarrow> store \<Rightarrow> store" where
  "toggleHabit hst now id' s =
     (let today = toDateString hst now
      in case map_rewards (toggleHabit_callback id' today) (habits s) (rewards s) of
           (hs, r) \<Rightarrow> s\<lparr>habits := hs, rewards := r\<rparr>)"

definition toggleTodo_callback ::
  "int \<Rightarrow> todo \<Rightarrow> reward_value \<Rightarrow> todo \<times> reward_value" where
  "toggleTodo_callback id' t r =
     (if todo_id t = id' \<and> \<not> todo_completed t
      then (t\<lparr>todo_completed := \<not> todo_completed t\<rparr>, plus_number r 5)
      else (if todo_id t = id' then t\<lparr>todo_completed := \<not> todo_completed t\<rparr> else t, r))"

definition toggleTodo :: "int \<Rightarrow> store \<Rightarrow> store" where
  "toggleTodo id' s =
     (case map_rewards (toggleTodo_callback id') (todos s) (rewards s) of
        (ts, r) \<Rightarrow> s\<lparr>todos := ts, rewards := r\<rparr>)"

text \<open>\<open>now\<close> is the instant \<^verbatim>\<open>new Date().toISOString()\<close> writes.\<close>

definition toggleLoanReturn :: "timestamp \<Rightarrow> int \<Rightarrow> store \<Rightarrow> store" where
  "toggleLoanReturn now id' s =
     s\<lparr>loans :=
         map (\<lambda>l. if loan_id l = id'
                  then l\<lparr>loan_returned := \<not> loan_returned l,
                         loan_dateReturned := (if \<not> loan_returned l then Val now else Null)\<rparr>
                  else l)
             (loans s)\<rparr>"

text \<open>
  \<^verbatim>\<open>deleteItem\<close> looks the setter up in a table keyed by the type name and does nothing
  when there is none. Every call site passes one of the seven keys; the names an object
  inherits (such as \<^verbatim>\<open>__proto__\<close>) are not keys of the model's table.
\<close>

datatype setter =
  SetHabits | SetTodos | SetExpenses | SetNotes | SetMemories | SetLoans | SetSleepSessions

definition setters :: "string \<Rightarrow> setter option" where
  "setters = map_of
     [(''habit'', SetHabits), (''todo'', SetTodos), (''expense'', SetExpenses),
      (''note'', SetNotes), (''memory'', SetMemories), (''loan'', SetLoans),
      (''sleep'', SetSleepSessions)]"

definition deleteItem :: "string \<Rightarrow> int \<Rightarrow> store \<Rightarrow> store" where
  "deleteItem type' id' s =
     (case setters type' of
        None \<Rightarrow> s
      | Some SetHabits \<Rightarrow> s\<lparr>habits := filter (\<lambda>item. habit_id item \<noteq> id') (habits s)\<rparr>
      | Some SetTodos \<Rightarrow> s\<lparr>todos := filter (\<lambda>item. todo_id item \<noteq> id') (todos s)\<rparr>
      | Some SetExpenses \<Rightarrow> s\<lparr>expenses := filter (\<lambda>item. expense_id item \<noteq> id') (expenses s)\<rparr>
      | Some SetNotes \<Rightarrow> s\<lparr>notes := filter (\<lambda>item. note_id item \<noteq> id') (notes s)\<rparr>
      | Some SetMemories \<Rightarrow> s\<lparr>memories := filter (\<lambda>item. memory_id item \<noteq> id') (memories s)\<rparr>
      | Some SetLoans \<Rightarrow> s\<lparr>loans := filter (\<lambda>item. loan_id item \<noteq> id') (loans s)\<rparr>
      | Some SetSleepSessions \<Rightarrow>
          s\<lparr>sleepSessions := filter (\<lambda>item. sleep_id item \<noteq> id') (sleepSessions s)\<rparr>)"

section \<open>Aggregates\<close>

text \<open>\<^verbatim>\<open>xs.reduce((sum, x) => sum + f(x), 0)\<close>: a fold from the left, starting at 0.\<close>

definition reduce_sum :: "('a \<Rightarrow> jsnum) \<Rightarrow> 'a list \<Rightarrow> jsnum" where
  "reduce_sum f xs = foldl (\<lambda>sum x. sum + f x) 0 xs"

definition completedTodosCount :: "store \<Rightarrow> nat" where
  "completedTodosCount s = length (filter todo_completed (todos s))"

definition pendingLoansAmount :: "store \<Rightarrow> jsnum" where
  "pendingLoansAmount s = reduce_sum loan_amount (filter (\<lambda>l. \<not> loan_returned l) (loans s))"

definition totalExpenses :: "store \<Rightarrow> jsnum" where
  "totalExpenses s = reduce_sum expense_amount (expenses s)"

definition todaySleep :: "host \<Rightarrow> timestamp \<Rightarrow> store \<Rightarrow> jsnum" where
  "todaySleep hst now s =
     (let todayStr = toDateString hst now
      in reduce_sum sleep_duration
           (filter (\<lambda>x. toDateString hst (sleep_date x) = todayStr) (sleepSessions s)))"

text \<open>The three totals of the component \<^verbatim>\<open>LoanTracker\<close>, which receives the loans.\<close>

definition totalLent :: "loan list \<Rightarrow> jsnum" where
  "totalLent ls = reduce_sum loan_amount ls"

definition totalReturned :: "loan list \<Rightarrow> jsnum" where
  "totalReturned ls = reduce_sum loan_amount (filter loan_returned ls)"

definition pendingAmount :: "loan list \<Rightarrow> jsnum" where
  "pendingAmount ls = totalLent ls - totalReturned ls"

text \<open>
  The body of the loop of \<^verbatim>\<open>getChartData\<close> for the counter \<open>i\<close>, with \<open>now\<close> the
  instant \<^verbatim>\<open>new Date()\<close> reads in that iteration. \<^verbatim>\<open>date.setDate(date.getDate() - i)\<close>
  moves the date \<open>i\<close> calendar days back.
\<close>

record chart_point =
  cp_date :: string
  cp_Habits :: nat
  cp_Tasks :: nat
  cp_Expenses :: jsnum
  cp_Sleep :: jsnum

definition chart_point_at :: "host \<Rightarrow> timestamp \<Rightarrow> int \<Rightarrow> store \<Rightarrow> chart_point" where
  "chart_point_at hst now i s =
     (let date = localDay hst now - i;
          dateStr = dayString hst date;
          habitsCompleted =
            foldl (\<lambda>sum h. sum + (if opt_includes (habit_completedDates h) dateStr then 1 else 0))
              0 (habits s);
          todosCompleted =
            length (filter (\<lambda>t. let todoDate = toDateString hst (todo_createdAt t)
                                in todo_completed t \<and> todoDate = dateStr) (todos s));
          dayExpenses =
            reduce_sum expense_amount
              (filter (\<lambda>e. toDateString hst (expense_date e) = dateStr) (expenses s));
          daySleep =
            reduce_sum sleep_duration
              (filter (\<lambda>x. toDateString hst (sleep_date x) = dateStr) (sleepSessions s))
      in \<lparr>cp_date = dayLabel hst date, cp_Habits = habitsCompleted, cp_Tasks = todosCompleted,
          cp_Expenses = dayExpenses, cp_Sleep = daySleep\<rparr>)"

text \<open>
  \<^verbatim>\<open>for (let i = 6; i >= 0; i--) { ...; last7Days.push(...) }\<close>, with \<open>clock i\<close> the
  instant read in the iteration whose counter is \<open>i\<close>.
\<close>

function getChartData_loop ::
  "host \<Rightarrow> (int \<Rightarrow> timestamp) \<Rightarrow> store \<Rightarrow> int \<Rightarrow> chart_point list \<Rightarrow> chart_point list" where
  "getChartData_loop hst clock s i last7Days =
     (if i \<ge> 0
      then getChartData_loop hst clock s (i - 1)
             (last7Days @ [chart_point_at hst (clock i) i s])
      else last7Days)"
  by pat_completeness auto
termination
  by (relation "measure (\<lambda>(hst, clock, s, i, last7Days). nat (i + 1))") auto

definition getChartData :: "host \<Rightarrow> (int \<Rightarrow> timestamp) \<Rightarrow> store \<Rightarrow> chart_point list" where
  "getChartData hst clock s = getChartData_loop hst clock s 6 []"

section \<open>Export and import\<close>

text \<open>
  The document \<^verbatim>\<open>allData\<close> and the documents \<^verbatim>\<open>setAllData\<close> reads: an object with the
  eight keys of the store and \<^verbatim>\<open>exportDate\<close>, each missing, null or holding a value of
  the type the store keeps under that key.
\<close>

record doc =
  doc_habits :: "habit list jsopt"
  doc_todos :: "todo list jsopt"
  doc_expenses :: "expense list jsopt"
  doc_notes :: "note_item list jsopt"
  doc_memories :: "memory list jsopt"
  doc_loans :: "loan list jsopt"
  doc_rewards :: "reward_value jsopt"
  doc_sleepSessions :: "sleepSession list jsopt"
  doc_exportDate :: "timestamp jsopt"

definition allData :: "store \<Rightarrow> timestamp \<Rightarrow> doc" where
  "allData s exportDate =
     \<lparr>doc_habits = Val (habits s), doc_todos = Val (todos s), doc_expenses = Val (expenses s),
      doc_notes = Val (notes s), doc_memories = Val (memories s), doc_loans = Val (loans s),
      doc_rewards = Val (rewards s), doc_sleepSessions = Val (sleepSessions s),
      doc_exportDate = Val exportDate\<rparr>"

text \<open>
  \<^verbatim>\<open>if (newData.k) setK(newData.k)\<close> tests the value, not the key: \<^verbatim>\<open>undefined\<close> and
  \<^verbatim>\<open>null\<close> are falsy, every array is truthy (the empty one too), and the value under
  \<^verbatim>\<open>rewards\<close> is truthy as said above (the number 0 is not).
\<close>

definition setAllData :: "doc \<Rightarrow> store \<Rightarrow> store" where
  "setAllData newData s =
     (let s1 = (case doc_habits newData of Val v \<Rightarrow> s\<lparr>habits := v\<rparr> | _ \<Rightarrow> s);
          s2 = (case doc_todos newData of Val v \<Rightarrow> s1\<lparr>todos := v\<rparr> | _ \<Rightarrow> s1);
          s3 = (case doc_expenses newData of Val v \<Rightarrow> s2\<lparr>expenses := v\<rparr> | _ \<Rightarrow> s2);
          s4 = (case doc_notes newData of Val v \<Rightarrow> s3\<lparr>notes := v\<rparr> | _ \<Rightarrow> s3);
          s5 = (case doc_memories newData of Val v \<Rightarrow> s4\<lparr>memories := v\<rparr> | _ \<Rightarrow> s4);
          s6 = (case doc_loans newData of Val v \<Rightarrow> s5\<lparr>loans := v\<rparr> | _ \<Rightarrow> s5);
          s7 = (case doc_rewards newData of
                  Val v \<Rightarrow> if truthy v then s6\<lparr>rewards := v\<rparr> else s6
                | _ \<Rightarrow> s6)
      in (case doc_sleepSessions newData of Val v \<Rightarrow> s7\<lparr>sleepSessions := v\<rparr> | _ \<Rightarrow> s7))"

text \<open>
  What \<^verbatim>\<open>JSON.parse\<close> can return, as far as \<^verbatim>\<open>importData\<close> looks at it: a primitive,
  null, an array (whose elements are never read) or an object, seen through the nine
  properties above. \<^verbatim>\<open>typeof\<close> is \<^verbatim>\<open>'object'\<close> for null, arrays and objects.
\<close>

datatype json_value =
  JNull | JBool bool | JNumber jsnum | JString string | JArray | JObject doc

definition js_typeof :: "json_value \<Rightarrow> string" where
  "js_typeof v =
     (case v of
        JNull \<Rightarrow> ''object''
      | JBool b \<Rightarrow> ''boolean''
      | JNumber n \<Rightarrow> ''number''
      | JString x \<Rightarrow> ''string''
      | JArray \<Rightarrow> ''object''
      | JObject d \<Rightarrow> ''object'')"

definition no_properties :: doc where
  "no_properties =
     \<lparr>doc_habits = Undefined, doc_todos = Undefined, doc_expenses = Undefined,
      doc_notes = Undefined, doc_memories = Undefined, doc_loans = Undefined,
      doc_rewards = Undefined, doc_sleepSessions = Undefined, doc_exportDate = Undefined\<rparr>"

text \<open>The nine properties of a parsed value; an array has none of them.\<close>

definition properties :: "json_value \<Rightarrow> doc" where
  "properties v = (case v of JObject d \<Rightarrow> d | _ \<Rightarrow> no_properties)"

text \<open>
  The \<^verbatim>\<open>onload\<close> callback of \<^verbatim>\<open>importData\<close> on the text of the file. \<open>parse\<close> is the
  host's \<^verbatim>\<open>JSON.parse\<close>, with \<open>None\<close> for the \<^verbatim>\<open>SyntaxError\<close> it throws. The result is
  the message of the \<^verbatim>\<open>alert\<close> and the store.
\<close>

definition importData :: "(string \<Rightarrow> json_value option) \<Rightarrow> string \<Rightarrow> store \<Rightarrow> string \<times> store" where
  "importData parse text' s =
     (case parse text' of
        None \<Rightarrow> (''Error importing data. Please check the file format.'', s)
      | Some importedData \<Rightarrow>
          if js_typeof importedData \<noteq> ''object'' \<or> importedData = JNull
          then (''Error importing data. Please check the file format.'', s)
          else (''Data imported successfully!'', setAllData (properties importedData) s))"

text \<open>
  \<^verbatim>\<open>exportData\<close> writes \<^verbatim>\<open>JSON.stringify(allData, null, 2)\<close> to the backup file;
  \<open>stringify\<close> is the host's \<^verbatim>\<open>JSON.stringify\<close>.
\<close>

definition exportData :: "(doc \<Rightarrow> string) \<Rightarrow> store \<Rightarrow> timestamp \<Rightarrow> string" where
  "exportData stringify s exportDate = stringify (allData s exportDate)"

section \<open>Sequences of calls\<close>

datatype call =
  AddHabit int timestamp string
| AddTodo int timestamp string
| AddExpense int timestamp string string string
| AddNote int timestamp string string
| AddMemory int timestamp string string
| AddLoan int timestamp string string string
| AddSleepSession int timestamp string bool
| ToggleLoanReturn timestamp int

fun perform :: "(string \<Rightarrow> jsnum) \<Rightarrow> call \<Rightarrow> store \<Rightarrow> store" where
  "perform parseFloat (AddHabit now stamp name) s = addHabit now stamp name s"
| "perform parseFloat (AddTodo now stamp task) s = addTodo now stamp task s"
| "perform parseFloat (AddExpense now stamp description amount category) s =
     addExpense parseFloat now stamp description amount category s"
| "perform parseFloat (AddNote now stamp title content) s = addNote now stamp title content s"
| "perform parseFloat (AddMemory now stamp title photo) s =
     addMemory now stamp title photo s"
| "perform parseFloat (AddLoan now stamp personName amount note') s =
     addLoan parseFloat now stamp personName amount note' s"
| "perform parseFloat (AddSleepSession now stamp duration isAfternoon) s =
     addSleepSession parseFloat now stamp duration isAfternoon s"
| "perform parseFloat (ToggleLoanReturn now id') s = toggleLoanReturn now id' s"

text \<open>The calls are performed in order, each on the store the previous one left.\<close>

definition run :: "(string \<Rightarrow> jsnum) \<Rightarrow> call list \<Rightarrow> store \<Rightarrow> store" where
  "run parseFloat cs s = fold (perform parseFloat) cs s"

fun is_add :: "call \<Rightarrow> bool" where
  "is_add (ToggleLoanReturn now id') = False"
| "is_add c = True"

fun is_loan_call :: "call \<Rightarrow> bool" where
  "is_loan_call (AddLoan now stamp personName amount note') = True"
| "is_loan_call (ToggleLoanReturn now id') = True"
| "is_loan_call c = False"

text \<open>The reading of \<^verbatim>\<open>Date.now()\<close> an \<^verbatim>\<open>add\<close> takes as the id.\<close>

fun call_now :: "call \<Rightarrow> int" where
  "call_now (AddHabit now stamp name) = now"
| "call_now (AddTodo now stamp task) = now"
| "call_now (AddExpense now stamp description amount category) = now"
| "call_now (AddNote now stamp title content) = now"
| "call_now (AddMemory now stamp title photo) = now"
| "call_now (AddLoan now stamp personName amount note') = now"
| "call_now (AddSleepSession now stamp duration isAfternoon) = now"
| "call_now (ToggleLoanReturn now id') = now"

text \<open>The ids of each of the seven collections, in collection order.\<close>

definition collection_ids :: "store \<Rightarrow> int list list" where
  "collection_ids s =
     [map habit_id (habits s), map todo_id (todos s), map expense_id (expenses s),
      map note_id (notes s), map memory_id (memories s), map loan_id (loans s),
      map sleep_id (sleepSessions s)]"

section \<open>Notions used by the properties\<close>

text \<open>
  The calls \<^verbatim>\<open>toggleHabit(id)\<close> made at the instants \<open>ts\<close>, in order, with nothing else
  in between.
\<close>

definition toggleHabit_calls :: "host \<Rightarrow> timestamp list \<Rightarrow> int \<Rightarrow> store \<Rightarrow> store" where
  "toggleHabit_calls hst ts id' s = fold (\<lambda>now. toggleHabit hst now id') ts s"

text \<open>
  Whether a habit is marked for the date \<open>today\<close>, the way the view reads it:
  \<^verbatim>\<open>habit.completedDates?.includes(today)\<close>.
\<close>

definition completed_on :: "habit \<Rightarrow> string \<Rightarrow> bool" where
  "completed_on h today = opt_includes (habit_completedDates h) today"

text \<open>
  A date of return is either a time stamp or nothing: the property is missing on a loan
  that was never returned and \<^verbatim>\<open>null\<close> on one whose return was undone.
\<close>

definition is_timestamp :: "timestamp jsopt \<Rightarrow> bool" where
  "is_timestamp x = (case x of Val t \<Rightarrow> True | _ \<Rightarrow> False)"

definition is_null :: "timestamp jsopt \<Rightarrow> bool" where
  "is_null x = (x = Undefined \<or> x = Null)"

text \<open>
  A number is whole when it is finite and equal to its integer part. The amount a call
  \<^verbatim>\<open>addLoan\<close> stores is whole; the size of that amount; and the sizes of the amounts of a
  sequence of calls, added up.
\<close>

definition whole_part :: "jsnum \<Rightarrow> int" where
  "whole_part x = (case x of Fin r \<Rightarrow> \<lfloor>r\<rfloor> | _ \<Rightarrow> 0)"

definition whole :: "jsnum \<Rightarrow> bool" where
  "whole x = (x = Fin (of_int (whole_part x)))"

fun whole_amount :: "(string \<Rightarrow> jsnum) \<Rightarrow> call \<Rightarrow> bool" where
  "whole_amount parseFloat (AddLoan now stamp personName amount note') = whole (parseFloat amount)"
| "whole_amount parseFloat c = True"

fun amount_size :: "(string \<Rightarrow> jsnum) \<Rightarrow> call \<Rightarrow> int" where
  "amount_size parseFloat (AddLoan now stamp personName amount note') =
     \<bar>whole_part (parseFloat amount)\<bar>"
| "amount_size parseFloat c = 0"

definition amounts_size :: "(string \<Rightarrow> jsnum) \<Rightarrow> call list \<Rightarrow> int" where
  "amounts_size parseFloat cs = sum_list (map (amount_size parseFloat) cs)"

text \<open>The ids of the collection \<^verbatim>\<open>deleteItem(type, id)\<close> filters; none for an unknown type.\<close>

definition targeted_ids :: "string \<Rightarrow> store \<Rightarrow> int list" where
  "targeted_ids type' s =
     (case setters type' of
        None \<Rightarrow> []
      | Some SetHabits \<Rightarrow> map habit_id (habits s)
      | Some SetTodos \<Rightarrow> map todo_id (todos s)
      | Some SetExpenses \<Rightarrow> map expense_id (expenses s)
      | Some SetNotes \<Rightarrow> map note_id (notes s)
      | Some SetMemories \<Rightarrow> map memory_id (memories s)
      | Some SetLoans \<Rightarrow> map loan_id (loans s)
      | Some SetSleepSessions \<Rightarrow> map sleep_id (sleepSessions s))"

text \<open>
  The 7-day series as the specification words it. For one calendar day \<open>d\<close>: the number
  of habits whose completion dates include the date string of \<open>d\<close>, the number of
  completed tasks created on \<open>d\<close>, the sum of the expense amounts dated \<open>d\<close> and the sum
  of the sleep durations dated \<open>d\<close>, under the short label of \<open>d\<close>. Dates are compared by
  their date strings, and a sum adds the numbers to 0 in the order of the collection.
\<close>

definition sum_in_order :: "jsnum list \<Rightarrow> jsnum" where
  "sum_in_order xs = foldl (+) 0 xs"

definition spec_day_record :: "host \<Rightarrow> store \<Rightarrow> int \<Rightarrow> chart_point" where
  "spec_day_record hst s d =
     \<lparr>cp_date = dayLabel hst d,
      cp_Habits = length (filter (\<lambda>h. completed_on h (dayString hst d)) (habits s)),
      cp_Tasks =
        length (filter (\<lambda>t. toDateString hst (todo_createdAt t) = dayString hst d
                             \<and> todo_completed t) (todos s)),
      cp_Expenses =
        sum_in_order (map expense_amount
          (filter (\<lambda>e. toDateString hst (expense_date e) = dayString hst d) (expenses s))),
      cp_Sleep =
        sum_in_order (map sleep_duration
          (filter (\<lambda>x. toDateString hst (sleep_date x) = dayString hst d) (sleepSessions s)))\<rparr>"

text \<open>The 7 calendar days ending with \<open>today\<close>, oldest first.\<close>

definition spec_last7DaysSeries :: "host \<Rightarrow> int \<Rightarrow> store \<Rightarrow> chart_point list" where
  "spec_last7DaysSeries hst today s =
     map (spec_day_record hst s)
       [today - 6, today - 5, today - 4, today - 3, today - 2, today - 1, today]"

subsection \<open>A host for the examples\<close>

text \<open>
  The host in the time zone UTC: an instant falls on the day \<open>t div 86400000\<close>, counted
  from the 1st of January 1970, a Thursday. The civil date of a day number follows the
  Gregorian calendar in eras of 400 years that start on a 1st of March; the date strings
  are those of the years 1000 to 9999.
\<close>

definition civil_from_days :: "int \<Rightarrow> int \<times> int \<times> int" where
  "civil_from_days z =
     (let z' = z + 719468;
          era = z' div 146097;
          doe = z' - era * 146097;
          yoe = (doe - doe div 1460 + doe div 36524 - doe div 146096) div 365;
          doy = doe - (365 * yoe + yoe div 4 - yoe div 100);
          mp = (5 * doy + 2) div 153;
          d = doy - (153 * mp + 2) div 5 + 1;
          m = (if mp < 10 then mp + 3 else mp - 9);
          y = yoe + era * 400 + (if m \<le> 2 then 1 else 0)
      in (y, m, d))"

definition month_name :: "int \<Rightarrow> string" where
  "month_name m =
     [''Jan'', ''Feb'', ''Mar'', ''Apr'', ''May'', ''Jun'', ''Jul'', ''Aug'', ''Sep'', ''Oct'',
      ''Nov'', ''Dec''] ! nat (m - 1)"

definition weekday_name :: "int \<Rightarrow> string" where
  "weekday_name z =
     [''Sun'', ''Mon'', ''Tue'', ''Wed'', ''Thu'', ''Fri'', ''Sat''] ! nat ((z + 4) mod 7)"

definition utc_dayString :: "int \<Rightarrow> string" where
  "utc_dayString z =
     (case civil_from_days z of (y, m, d) \<Rightarrow>
        weekday_name z @ '' '' @ month_name m @ '' ''
        @ [digit_char (nat (d div 10)), digit_char (nat d)] @ '' ''
        @ [digit_char (nat (y div 1000)), digit_char (nat (y div 100)),
           digit_char (nat (y div 10)), digit_char (nat y)])"

definition utc_dayLabel :: "int \<Rightarrow> string" where
  "utc_dayLabel z =
     (case civil_from_days z of (y, m, d) \<Rightarrow>
        month_name m @ '' ''
        @ (if d < 10 then [digit_char (nat d)]
           else [digit_char (nat (d div 10)), digit_char (nat d)]))"

definition utc_host :: host where
  "utc_host =
     \<lparr>localDay = (\<lambda>t. t div 86400000), dayString = utc_dayString, dayLabel = utc_dayLabel\<rparr>"

text \<open>What \<^verbatim>\<open>toggleHabit\<close> makes of the habit it matches, for the date \<open>today\<close>.\<close>

definition toggled_habit :: "string \<Rightarrow> habit \<Rightarrow> habit" where
  "toggled_habit today h =
     (let dates = or_empty (habit_completedDates h)
      in if today \<in> set dates
         then h\<lparr>habit_completedDates := Val (filter (\<lambda>d. d \<noteq> today) dates)\<rparr>
         else h\<lparr>habit_completedDates := Val (dates @ [today])\<rparr>)"

text \<open>The two sides of the loan invariant of the data model.\<close>

definition loan_inv :: "loan \<Rightarrow> bool" where
  "loan_inv l = ((loan_returned l \<longleftrightarrow> is_timestamp (loan_dateReturned l))
                 \<and> (\<not> loan_returned l \<longleftrightarrow> is_null (loan_dateReturned l)))"

subsection \<open>Example inputs\<close>

text \<open>
  What the host's \<^verbatim>\<open>parseFloat\<close> returns on the amount texts of the examples: the
  double nearest to the decimal, and \<^verbatim>\<open>NaN\<close> on a text with no number at its start.
\<close>

definition example_parseFloat :: "string \<Rightarrow> jsnum" where
  "example_parseFloat t =
     (if t = ''100'' then Fin 100
      else if t = ''0.1'' then round_double (1 / 10)
      else if t = ''0.2'' then round_double (2 / 10)
      else if t = ''0.3'' then round_double (3 / 10)
      else if t = ''4.50'' then Fin (9 / 2)
      else if t = ''7.5'' then Fin (15 / 2)
      else NaN)"

text \<open>Two tasks, added one second apart; two tasks added in the same millisecond.\<close>

definition two_todos :: store where
  "two_todos = addTodo 2000 2000 ''Read'' (addTodo 1000 1000 ''Run'' initial_store)"

definition same_ms_todos :: store where
  "same_ms_todos = addTodo 1000 1000 ''Read'' (addTodo 1000 1000 ''Run'' initial_store)"

text \<open>
  A loan of 100 to Sam, then marked returned; the same with an amount that is not a
  number; and loans of 0.1, 0.2 and 0.3, the first of them marked returned.
\<close>

definition sam_loan_calls :: "call list" where
  "sam_loan_calls = [AddLoan 1000 1000 ''Sam'' ''100'' ''lunch'', ToggleLoanReturn 2000 1000]"

definition nan_loan_calls :: "call list" where
  "nan_loan_calls = [AddLoan 1000 1000 ''Sam'' ''abc'' ''lunch'', ToggleLoanReturn 2000 1000]"

definition dime_loan_calls :: "call list" where
  "dime_loan_calls =
     [AddLoan 1000 1000 ''Sam'' ''0.1'' ''bus'', AddLoan 1001 1001 ''Kim'' ''0.2'' ''bus'',
      AddLoan 1002 1002 ''Lee'' ''0.3'' ''bus'', ToggleLoanReturn 2000 1000]"

text \<open>One habit, and three instants of the 3rd of November 2025 (UTC).\<close>

definition one_habit :: store where
  "one_habit = addHabit 1000 1000 ''Drink water'' initial_store"

text \<open>The same store after the habit was done on the 3rd of November 2025.\<close>

definition habit_done :: store where
  "habit_done = toggleHabit utc_host 1762128000000 1000 one_habit"

definition three_instants :: "timestamp list" where
  "three_instants = [1762128000000, 1762128060000, 1762131600000]"

text \<open>
  A store with a habit done, an expense and a finished task on the 3rd of November 2025,
  and a night of sleep the day before.
\<close>

definition week_store :: store where
  "week_store =
     toggleTodo 1762128000001
       (addTodo 1762128000001 1762128000001 ''Run''
         (addSleepSession example_parseFloat 1762041600000 1762041600000 ''7.5'' False
           (addExpense example_parseFloat 1762128000000 1762128000000 ''Coffee'' ''4.50''
             ''Food'' (toggleHabit utc_host 1762128000002 1000 one_habit))))"

text \<open>Two habits added in the same millisecond; three adds at readings that do not decrease.\<close>

definition same_ms_adds :: "call list" where
  "same_ms_adds = [AddHabit 1000 1000 ''Drink water'', AddHabit 1000 1000 ''Read'']"

definition spaced_adds :: "call list" where
  "spaced_adds =
     [AddHabit 1000 1000 ''Drink water'', AddTodo 1000 1000 ''Run'', AddHabit 1001 1001 ''Read'']"

text \<open>What \<^verbatim>\<open>JSON.parse\<close> returns on four texts; on the others here it throws.\<close>

definition example_parse :: "string \<Rightarrow> json_value option" where
  "example_parse t =
     (if t = ''42'' then Some (JNumber (Fin 42))
      else if t = ''null'' then Some JNull
      else if t = ''[1, 2]'' then Some JArray
      else if t = ''{\"rewards\": 500}''
        then Some (JObject (no_properties\<lparr>doc_rewards := Val (RNum (Fin 500))\<rparr>))
      else None)"

text \<open>Documents: one whose \<^verbatim>\<open>habits\<close> key holds null, and one with only \<^verbatim>\<open>rewards\<close>.\<close>

definition null_habits_doc :: doc where
  "null_habits_doc = no_properties\<lparr>doc_habits := Null\<rparr>"

definition rewards_only_doc :: doc where
  "rewards_only_doc = no_properties\<lparr>doc_rewards := Val (RNum (Fin 500))\<rparr>"

text \<open>Stores whose reward counter is \<open>2 ^ 53\<close>, and the string \<^verbatim>\<open>'500'\<close> after an import.\<close>

definition big_counter_todos :: store where
  "big_counter_todos = two_todos\<lparr>rewards := RNum (Fin (2 ^ 53))\<rparr>"

definition text_counter_todos :: store where
  "text_counter_todos = two_todos\<lparr>rewards := RStr ''500''\<rparr>"

section \<open>Helper lemmas\<close>

subsection \<open>Sums of whole numbers are exact\<close>

lemma halvings_bounds:
  assumes "1 \<le> a" and "a < 2 ^ n"
  shows "2 ^ halvings n a \<le> a \<and> a < 2 * 2 ^ halvings n a"
  using assms
proof (induction n arbitrary: a)
  case 0
  then show ?case by simp
next
  case (Suc n)
  show ?case
  proof (cases "2 \<le> a")
    case True
    then have "1 \<le> a / 2" "a / 2 < 2 ^ n"
      using Suc.prems by simp_all
    from Suc.IH[OF this] True show ?thesis
      by simp
  next
    case False
    then show ?thesis
      using Suc.prems by simp
  qed
qed

lemma round_half_even_int: "round_half_even (of_int k) = k"
  by (simp add: round_half_even_def)

lemma round_magnitude_whole:
  assumes "0 < m" and "m \<le> 2 ^ 53"
  shows "round_magnitude (of_int m) = Some (of_int m)"
proof -
  define a :: rat where "a = of_int m"
  define e where "e = halvings 1024 a"
  have a1: "1 \<le> a"
    using assms(1) by (simp add: a_def)
  have a53: "a \<le> 2 ^ 53"
  proof -
    have "(of_int m :: rat) \<le> of_int (2 ^ 53)"
      using assms(2) by (subst of_int_le_iff)
    then show ?thesis by (simp add: a_def)
  qed
  have "a < 2 ^ 1024"
    using a53 by (rule order_le_less_trans) simp
  from halvings_bounds[OF a1 this] have b: "2 ^ e \<le> a" "a < 2 * 2 ^ e"
    by (simp_all add: e_def)
  have p53: "(2::rat) ^ e \<le> 2 ^ 53"
    using b(1) a53 by (rule order_trans)
  have e53: "e \<le> 53"
  proof (rule power_le_imp_le_exp)
    show "(1::rat) < 2" by simp
    show "(2::rat) ^ e \<le> 2 ^ 53" by (rule p53)
  qed
  have ex: "exponent a = int e"
    using a1 by (simp add: exponent_def e_def)
  have "\<exists>k. a = of_int k * pow2 (int e - 52)"
  proof (cases "e \<le> 52")
    case True
    have "a = of_int (m * 2 ^ (52 - e)) * pow2 (int e - 52)"
      using True by (simp add: pow2_def a_def nat_diff_distrib')
    then show ?thesis ..
  next
    case False
    then have e: "e = 53" using e53 by simp
    then have "a = 2 ^ 53" using b(1) a53 by simp
    then have "a = of_int (2 ^ 52) * pow2 (int e - 52)"
      by (simp add: e pow2_def)
    then show ?thesis ..
  qed
  then obtain k where k: "a = of_int k * pow2 (int e - 52)" ..
  have upos: "0 < pow2 (int e - 52)"
    by (simp add: pow2_def)
  have q: "a / pow2 (int e - 52) = of_int k"
    using k upos by simp
  have "round_magnitude a = Some a"
    using e53 by (simp add: round_magnitude_def Let_def ex q round_half_even_int flip: k)
  then show ?thesis
    by (simp add: a_def)
qed

lemma round_double_whole:
  assumes "\<bar>m\<bar> \<le> 2 ^ 53"
  shows "round_double (of_int m) = Fin (of_int m)"
proof -
  consider "m = 0" | "0 < m" | "m < 0" by linarith
  then show ?thesis
  proof cases
    case 1
    then show ?thesis by (simp add: round_double_def)
  next
    case 2
    then have "round_magnitude (of_int m) = Some (of_int m)"
      using assms by (intro round_magnitude_whole) simp_all
    then show ?thesis
      using 2 by (simp add: round_double_def)
  next
    case 3
    then have "round_magnitude (of_int (- m)) = Some (of_int (- m))"
      using assms by (intro round_magnitude_whole) simp_all
    then show ?thesis
      using 3 by (simp add: round_double_def abs_if)
  qed
qed

lemma plus_whole:
  assumes "\<bar>a + b\<bar> \<le> 2 ^ 53"
  shows "Fin (of_int a) + Fin (of_int b) = Fin (of_int (a + b))"
  using round_double_whole[OF assms] by simp

lemma plus_number_whole:
  assumes "\<bar>b + int k\<bar> \<le> 2 ^ 53"
  shows "plus_number (RNum (Fin (of_int b))) k = RNum (Fin (of_int (b + int k)))"
  using plus_whole[OF assms] by (simp add: plus_number_def)

subsection \<open>The map that threads the reward counter\<close>

lemma map_rewards_eq:
  assumes "\<And>x r. f x r = (g x, if P x then bump r else r)"
  shows "map_rewards f xs r = (map g xs, (bump ^^ length (filter P xs)) r)"
  using assms by (induction xs arbitrary: r) (simp_all add: funpow_swap1)

lemma map_only_eq:
  assumes "\<forall>j < length xs. (key (xs ! j) = k) = (j = i)" and "i < length xs"
    and "\<And>x. key x \<noteq> k \<Longrightarrow> g x = x"
  shows "map g xs = xs[i := g (xs ! i)]"
  using assms by (auto intro!: nth_equalityI simp: nth_list_update)

lemma sum_only_eq:
  assumes "\<forall>j < length xs. (key (xs ! j) = k) = (j = i)" and "i < length xs"
    and "\<And>x. key x \<noteq> k \<Longrightarrow> d x = (0::int)"
  shows "sum_list (map d xs) = d (xs ! i)"
proof -
  have "sum_list (map d xs) = (\<Sum>j<length xs. d (xs ! j))"
    by (simp add: sum_list_sum_nth atLeast0LessThan)
  also have "\<dots> = (\<Sum>j<length xs. if j = i then d (xs ! i) else 0)"
    using assms by (intro sum.cong) auto
  also have "\<dots> = d (xs ! i)"
    using assms(2) by simp
  finally show ?thesis .
qed

lemma sum_list_if_const:
  "sum_list (map (\<lambda>x. if P x then c else (0::int)) xs) = c * int (length (filter P xs))"
  by (induction xs) (simp_all add: algebra_simps)

lemma count_only_eq:
  assumes "\<forall>j < length xs. (key (xs ! j) = k) = (j = i)" and "i < length xs"
    and "\<And>x. P x \<Longrightarrow> key x = k"
  shows "length (filter P xs) = (if P (xs ! i) then 1 else 0)"
proof -
  have "int (length (filter P xs)) = sum_list (map (\<lambda>x. if P x then 1 else 0) xs)"
    by (simp add: sum_list_if_const)
  also have "\<dots> = (if P (xs ! i) then 1 else 0)"
    using assms(1,2) by (rule sum_only_eq) (use assms(3) in auto)
  finally show ?thesis
    by (simp split: if_splits)
qed

text \<open>
  What the two toggles do on any store: every entity that carries the id is toggled, and
  \<^verbatim>\<open>prev + k\<close> is applied to the reward counter once for each of them that becomes
  completed.
\<close>

lemma toggleTodo_every_match:
  "toggleTodo id' s =
     s\<lparr>todos := map (\<lambda>t. if todo_id t = id'
                            then t\<lparr>todo_completed := \<not> todo_completed t\<rparr> else t) (todos s),
       rewards := ((\<lambda>r. plus_number r 5)
                    ^^ length (filter (\<lambda>t. todo_id t = id' \<and> \<not> todo_completed t) (todos s)))
                  (rewards s)\<rparr>"
proof -
  have "map_rewards (toggleTodo_callback id') (todos s) (rewards s)
          = (map (\<lambda>t. if todo_id t = id'
                         then t\<lparr>todo_completed := \<not> todo_completed t\<rparr> else t) (todos s),
             ((\<lambda>r. plus_number r 5)
                ^^ length (filter (\<lambda>t. todo_id t = id' \<and> \<not> todo_completed t) (todos s)))
               (rewards s))"
    by (rule map_rewards_eq) (simp add: toggleTodo_callback_def)
  then show ?thesis
    by (simp add: toggleTodo_def)
qed

lemma toggleHabit_every_match:
  "toggleHabit hst now id' s =
     s\<lparr>habits := map (\<lambda>h. if habit_id h = id'
                             then toggled_habit (toDateString hst now) h else h) (habits s),
       rewards := ((\<lambda>r. plus_number r 10)
                    ^^ length (filter (\<lambda>h. habit_id h = id'
                                            \<and> \<not> completed_on h (toDateString hst now))
                                 (habits s)))
                  (rewards s)\<rparr>"
proof -
  have "map_rewards (toggleHabit_callback id' (toDateString hst now)) (habits s) (rewards s)
          = (map (\<lambda>h. if habit_id h = id'
                         then toggled_habit (toDateString hst now) h else h) (habits s),
             ((\<lambda>r. plus_number r 10)
                ^^ length (filter (\<lambda>h. habit_id h = id'
                                        \<and> \<not> completed_on h (toDateString hst now))
                             (habits s)))
               (rewards s))"
    by (rule map_rewards_eq)
      (simp add: toggleHabit_callback_def toggled_habit_def completed_on_def opt_includes_def
        or_empty_def Let_def split: jsopt.splits)
  then show ?thesis
    by (simp add: toggleHabit_def)
qed

lemma two_todos_value:
  "todos two_todos =
     [\<lparr>todo_id = 1000, todo_task = ''Run'', todo_completed = False, todo_photo = Null,
       todo_createdAt = 1000\<rparr>,
      \<lparr>todo_id = 2000, todo_task = ''Read'', todo_completed = False, todo_photo = Null,
       todo_createdAt = 2000\<rparr>]"
  by (simp add: two_todos_def addTodo_def initial_store_def)

lemma two_todos_rewards: "rewards two_todos = RNum (Fin (of_int 0))"
  by (simp add: two_todos_def addTodo_def initial_store_def zero_jsnum_def)

section \<open>Task toggle\<close>

lemma toggleTodo_once:
  assumes "\<forall>j < length (todos s). (todo_id (todos s ! j) = id') = (j = i)"
    and "i < length (todos s)"
  shows "toggleTodo id' s =
           s\<lparr>todos := (todos s)[i := (todos s ! i)\<lparr>todo_completed := \<not> todo_completed (todos s ! i)\<rparr>],
             rewards := (if todo_completed (todos s ! i) then rewards s
                         else plus_number (rewards s) 5)\<rparr>"
proof -
  let ?g = "\<lambda>t. if todo_id t = id' then t\<lparr>todo_completed := \<not> todo_completed t\<rparr> else t"
  let ?P = "\<lambda>t. todo_id t = id' \<and> \<not> todo_completed t"
  have at: "todo_id (todos s ! i) = id'"
    using assms by simp
  have m: "map ?g (todos s) = (todos s)[i := ?g (todos s ! i)]"
    using assms by (rule map_only_eq) simp
  have c: "length (filter ?P (todos s)) = (if ?P (todos s ! i) then 1 else 0)"
    using assms by (rule count_only_eq) simp
  show ?thesis
    unfolding toggleTodo_every_match m c by (simp add: at)
qed

text \<open>
  Claim C6, as stated, fails. Two tasks added in the same millisecond share their id; one
  \<^verbatim>\<open>toggleTodo\<close> on it completes both and adds 10 to the reward counter.
\<close>

theorem shared_id_toggleTodo_counterexample:
  "map todo_id (todos same_ms_todos) = [1000, 1000]
   \<and> map todo_completed (todos same_ms_todos) = [False, False]
   \<and> rewards same_ms_todos = RNum (Fin 0)
   \<and> map todo_completed (todos (toggleTodo 1000 same_ms_todos)) = [True, True]
   \<and> rewards (toggleTodo 1000 same_ms_todos) = RNum (Fin 10)"
  by code_simp

text \<open>
  The reward counter is a double, and a string after an import of one: from \<open>2 ^ 53\<close> the
  sum with 5 is rounded, and the string \<^verbatim>\<open>'500'\<close> becomes \<^verbatim>\<open>'5005'\<close>.
\<close>

lemma toggleTodo_rounds_big_counter:
  "rewards (toggleTodo 2000 big_counter_todos) = RNum (Fin (2 ^ 53 + 4))"
  by code_simp

lemma toggleTodo_appends_to_text_counter:
  "rewards (toggleTodo 2000 text_counter_todos) = RStr ''5005''"
  by code_simp

text \<open>
  Claim C6, amended. When the id \<open>id'\<close> belongs to the task at position \<open>i\<close> of the todos
  and to no other task, and the reward counter is a whole number \<open>r\<close> with
  \<open>\<bar>r + 5\<bar> \<le> 2 ^ 53\<close>, \<^verbatim>\<open>toggleTodo(id)\<close> replaces that task by itself with \<^verbatim>\<open>completed\<close>
  negated and changes nothing else in the collection; the reward counter becomes \<open>r + 5\<close>
  when the task was incomplete and stays as it was when the task was completed. No other
  part of the store changes.
\<close>

theorem toggleTodo_effect:
  assumes "\<forall>j < length (todos s). (todo_id (todos s ! j) = id') = (j = i)"
    and "i < length (todos s)"
    and "rewards s = RNum (Fin (of_int r))" and "\<bar>r + 5\<bar> \<le> 2 ^ 53"
  shows "toggleTodo id' s =
           s\<lparr>todos := (todos s)[i := (todos s ! i)\<lparr>todo_completed := \<not> todo_completed (todos s ! i)\<rparr>],
             rewards := (if todo_completed (todos s ! i) then RNum (Fin (of_int r))
                         else RNum (Fin (of_int (r + 5))))\<rparr>"
proof -
  have "plus_number (RNum (Fin (of_int r))) 5 = RNum (Fin (of_int (r + int 5)))"
    using assms(4) by (intro plus_number_whole) simp
  then show ?thesis
    unfolding toggleTodo_once[OF assms(1,2)] assms(3) by simp
qed

theorem toggleTodo_effect_witness:
  "map todo_id (todos two_todos) = [1000, 2000]
   \<and> rewards two_todos = RNum (Fin 0)
   \<and> todos (toggleTodo 2000 two_todos) =
       [\<lparr>todo_id = 1000, todo_task = ''Run'', todo_completed = False, todo_photo = Null,
         todo_createdAt = 1000\<rparr>,
        \<lparr>todo_id = 2000, todo_task = ''Read'', todo_completed = True, todo_photo = Null,
         todo_createdAt = 2000\<rparr>]
   \<and> rewards (toggleTodo 2000 two_todos) = RNum (Fin 5)
   \<and> todos (toggleTodo 2000 (toggleTodo 2000 two_todos)) = todos two_todos
   \<and> rewards (toggleTodo 2000 (toggleTodo 2000 two_todos)) = RNum (Fin 5)"
proof -
  have h1: "\<forall>j < length (todos two_todos). (todo_id (todos two_todos ! j) = 2000) = (j = 1)"
    by (simp add: two_todos_value less_Suc_eq)
  have h2: "1 < length (todos two_todos)"
    by (simp add: two_todos_value)
  have h4: "\<bar>(0::int) + 5\<bar> \<le> 2 ^ 53"
    by simp
  let ?s1 = "toggleTodo 2000 two_todos"
  have first: "todos ?s1 = (todos two_todos)[1 := (todos two_todos ! 1)\<lparr>todo_completed := True\<rparr>]
                 \<and> rewards ?s1 = RNum (Fin (of_int 5))"
    using toggleTodo_effect[OF h1 h2 two_todos_rewards h4] by (simp add: two_todos_value)
  have g1: "\<forall>j < length (todos ?s1). (todo_id (todos ?s1 ! j) = 2000) = (j = 1)"
    using first by (simp add: two_todos_value less_Suc_eq)
  have g2: "1 < length (todos ?s1)"
    using first by (simp add: two_todos_value)
  have g3: "rewards ?s1 = RNum (Fin (of_int 5))"
    using first by simp
  have g4: "\<bar>(5::int) + 5\<bar> \<le> 2 ^ 53"
    by simp
  have second: "todos (toggleTodo 2000 ?s1) = todos two_todos
                  \<and> rewards (toggleTodo 2000 ?s1) = RNum (Fin (of_int 5))"
    using toggleTodo_effect[OF g1 g2 g3 g4] first by (simp add: two_todos_value)
  show ?thesis
    using first second two_todos_rewards by (simp add: two_todos_value)
qed

section \<open>Habit toggle\<close>

lemma completed_on_or_empty:
  "completed_on h today = (today \<in> set (or_empty (habit_completedDates h)))"
  by (simp add: completed_on_def opt_includes_def or_empty_def split: jsopt.splits)

lemma completed_on_toggled:
  "completed_on (toggled_habit today h) today = (\<not> completed_on h today)"
  by (simp add: completed_on_or_empty toggled_habit_def Let_def or_empty_def)

lemma habit_id_toggled: "habit_id (toggled_habit today h) = habit_id h"
  by (simp add: toggled_habit_def Let_def)

lemma toggleHabit_once:
  assumes "\<forall>j < length (habits s). (habit_id (habits s ! j) = id') = (j = i)"
    and "i < length (habits s)"
  shows "toggleHabit hst now id' s =
           s\<lparr>habits := (habits s)[i := toggled_habit (toDateString hst now) (habits s ! i)],
             rewards := (if completed_on (habits s ! i) (toDateString hst now) then rewards s
                         else plus_number (rewards s) 10)\<rparr>"
proof -
  let ?today = "toDateString hst now"
  let ?g = "\<lambda>h. if habit_id h = id' then toggled_habit ?today h else h"
  let ?P = "\<lambda>h. habit_id h = id' \<and> \<not> completed_on h ?today"
  have at: "habit_id (habits s ! i) = id'"
    using assms by simp
  have m: "map ?g (habits s) = (habits s)[i := ?g (habits s ! i)]"
    using assms by (rule map_only_eq) simp
  have c: "length (filter ?P (habits s)) = (if ?P (habits s ! i) then 1 else 0)"
    using assms by (rule count_only_eq) simp
  show ?thesis
    unfolding toggleHabit_every_match m c by (simp add: at)
qed

lemma toggleHabit_keeps_only:
  assumes "\<forall>j < length (habits s). (habit_id (habits s ! j) = id') = (j = i)"
    and "i < length (habits s)"
  shows "(\<forall>j < length (habits (toggleHabit hst now id' s)).
            (habit_id (habits (toggleHabit hst now id' s) ! j) = id') = (j = i))
         \<and> i < length (habits (toggleHabit hst now id' s))"
  using assms
  by (simp add: toggleHabit_once[OF assms] nth_list_update habit_id_toggled)

lemma toggleHabit_calls_Cons:
  "toggleHabit_calls hst (t # ts) id' s = toggleHabit_calls hst ts id' (toggleHabit hst t id' s)"
  by (simp add: toggleHabit_calls_def)

lemma toggleHabit_calls_keeps_only:
  assumes "\<forall>j < length (habits s). (habit_id (habits s ! j) = id') = (j = i)"
    and "i < length (habits s)"
  shows "(\<forall>j < length (habits (toggleHabit_calls hst ts id' s)).
            (habit_id (habits (toggleHabit_calls hst ts id' s) ! j) = id') = (j = i))
         \<and> i < length (habits (toggleHabit_calls hst ts id' s))"
  using assms
proof (induction ts arbitrary: s)
  case Nil
  then show ?case by (simp add: toggleHabit_calls_def)
next
  case (Cons t ts)
  show ?case
    unfolding toggleHabit_calls_Cons
    using Cons.IH toggleHabit_keeps_only[OF Cons.prems] by simp
qed

lemma toggleHabit_calls_parity:
  assumes "\<forall>j < length (habits s). (habit_id (habits s ! j) = id') = (j = i)"
    and "i < length (habits s)"
    and "\<forall>now \<in> set ts. toDateString hst now = today"
  shows "completed_on (habits (toggleHabit_calls hst ts id' s) ! i) today
           = (completed_on (habits s ! i) today \<noteq> odd (length ts))"
  using assms
proof (induction ts arbitrary: s)
  case Nil
  then show ?case by (simp add: toggleHabit_calls_def)
next
  case (Cons t ts)
  let ?s1 = "toggleHabit hst t id' s"
  have day: "toDateString hst t = today"
    using Cons.prems(3) by simp
  have keep: "(\<forall>j < length (habits ?s1). (habit_id (habits ?s1 ! j) = id') = (j = i))"
    "i < length (habits ?s1)"
    using toggleHabit_keeps_only[OF Cons.prems(1,2)] by simp_all
  have flip: "completed_on (habits ?s1 ! i) today = (\<not> completed_on (habits s ! i) today)"
    using Cons.prems(2)
    by (simp add: toggleHabit_once[OF Cons.prems(1,2)] day completed_on_toggled)
  have "completed_on (habits (toggleHabit_calls hst ts id' ?s1) ! i) today
          = (completed_on (habits ?s1 ! i) today \<noteq> odd (length ts))"
    using Cons.IH[OF keep] Cons.prems(3) by simp
  then show ?case
    unfolding toggleHabit_calls_Cons flip by auto
qed

text \<open>While the counter is a whole number with room for the calls, it stays one.\<close>

lemma toggleHabit_calls_counter:
  assumes "\<forall>j < length (habits s). (habit_id (habits s ! j) = id') = (j = i)"
    and "i < length (habits s)"
    and "rewards s = RNum (Fin (of_int r))"
    and "\<bar>r\<bar> + 10 * int (length ts) \<le> 2 ^ 53"
  shows "\<exists>b. rewards (toggleHabit_calls hst ts id' s) = RNum (Fin (of_int b))
             \<and> r \<le> b \<and> b \<le> r + 10 * int (length ts)"
  using assms
proof (induction ts arbitrary: s r)
  case Nil
  then show ?case by (simp add: toggleHabit_calls_def)
next
  case (Cons t ts)
  let ?s1 = "toggleHabit hst t id' s"
  have keep: "(\<forall>j < length (habits ?s1). (habit_id (habits ?s1 ! j) = id') = (j = i))"
    "i < length (habits ?s1)"
    using toggleHabit_keeps_only[OF Cons.prems(1,2)] by simp_all
  have room: "\<bar>r + int 10\<bar> \<le> 2 ^ 53"
    using Cons.prems(4) by simp
  have plus: "plus_number (RNum (Fin (of_int r))) 10 = RNum (Fin (of_int (r + int 10)))"
    using room by (rule plus_number_whole)
  have "\<exists>r1. rewards ?s1 = RNum (Fin (of_int r1)) \<and> r \<le> r1 \<and> r1 \<le> r + 10"
  proof (cases "completed_on (habits s ! i) (toDateString hst t)")
    case True
    then have "rewards ?s1 = RNum (Fin (of_int r))"
      by (simp add: toggleHabit_once[OF Cons.prems(1,2)] Cons.prems(3))
    then show ?thesis
      by (intro exI[of _ r]) simp
  next
    case False
    then have "rewards ?s1 = plus_number (RNum (Fin (of_int r))) 10"
      by (simp add: toggleHabit_once[OF Cons.prems(1,2)] Cons.prems(3))
    then have "rewards ?s1 = RNum (Fin (of_int (r + int 10)))"
      by (simp only: plus)
    then show ?thesis
      by (intro exI[of _ "r + int 10"]) simp
  qed
  then obtain r1 where r1: "rewards ?s1 = RNum (Fin (of_int r1))" "r \<le> r1" "r1 \<le> r + 10"
    by blast
  have "\<bar>r1\<bar> + 10 * int (length ts) \<le> 2 ^ 53"
    using r1(2,3) Cons.prems(4) by simp
  from Cons.IH[OF keep r1(1) this]
  obtain b where "rewards (toggleHabit_calls hst ts id' ?s1) = RNum (Fin (of_int b))"
    "r1 \<le> b" "b \<le> r1 + 10 * int (length ts)"
    by blast
  then show ?case
    unfolding toggleHabit_calls_Cons using r1(2,3) by (intro exI[of _ b]) simp
qed

lemma three_instants_day:
  "map (toDateString utc_host) three_instants
     = [''Mon Nov 03 2025'', ''Mon Nov 03 2025'', ''Mon Nov 03 2025'']"
  by code_simp

lemma one_habit_value:
  "habits one_habit =
     [\<lparr>habit_id = 1000, habit_name = ''Drink water'', habit_completedDates = Val [],
       habit_createdAt = 1000\<rparr>]"
  by (simp add: one_habit_def addHabit_def initial_store_def)

lemma one_habit_rewards: "rewards one_habit = RNum (Fin (of_int 0))"
  by (simp add: one_habit_def addHabit_def initial_store_def zero_jsnum_def)

text \<open>
  Claim C1, as stated, fails. Two habits added in the same millisecond share their id; one
  \<^verbatim>\<open>toggleHabit\<close> on it adds today's date to both and 20 to the reward counter.
\<close>

theorem shared_id_toggleHabit_counterexample:
  "map habit_id (habits (run example_parseFloat same_ms_adds initial_store)) = [1000, 1000]
   \<and> rewards (run example_parseFloat same_ms_adds initial_store) = RNum (Fin 0)
   \<and> map (\<lambda>h. completed_on h ''Mon Nov 03 2025'')
        (habits (toggleHabit_calls utc_host [1762128000000] 1000
                  (run example_parseFloat same_ms_adds initial_store))) = [True, True]
   \<and> rewards (toggleHabit_calls utc_host [1762128000000] 1000
                (run example_parseFloat same_ms_adds initial_store)) = RNum (Fin 20)"
  by code_simp

text \<open>
  From \<open>2 ^ 54\<close> on the doubles are 4 apart and the sum of the counter with 10 is
  rounded: to 8 more at \<open>2 ^ 54\<close>, to 12 more at \<open>2 ^ 54 + 4\<close>. A counter that an
  import left as the string \<^verbatim>\<open>'500'\<close> becomes \<^verbatim>\<open>'50010'\<close>.
\<close>

lemma toggleHabit_rounds_big_counter:
  "rewards (toggleHabit utc_host 1762128000000 1000
             (one_habit\<lparr>rewards := RNum (Fin (2 ^ 54))\<rparr>))
     = RNum (Fin (2 ^ 54 + 8))
   \<and> rewards (toggleHabit utc_host 1762128000000 1000
               (one_habit\<lparr>rewards := RNum (Fin (2 ^ 54 + 4))\<rparr>))
       = RNum (Fin (2 ^ 54 + 16))"
  by code_simp

lemma toggleHabit_appends_to_text_counter:
  "rewards (toggleHabit utc_host 1762128000000 1000 (one_habit\<lparr>rewards := RStr ''500''\<rparr>))
     = RStr ''50010''"
  by code_simp

text \<open>
  Claim C1, amended. Let the id \<open>id'\<close> belong to the habit at position \<open>i\<close> and to no other
  habit, let the reward counter be a whole number \<open>r\<close> with \<open>\<bar>r\<bar> + 10 n \<le> 2 ^ 53\<close>, and
  let \<^verbatim>\<open>toggleHabit(id)\<close> be called at the \<open>n\<close> instants \<open>ts\<close>, all of which fall on the
  calendar day whose date string is \<open>today\<close>. Then the habit is marked for \<open>today\<close> at the
  end exactly when its mark at the start and the parity of \<open>n\<close> differ: a habit that starts
  the day unmarked is marked after an odd number of calls and unmarked after an even
  number. Every single call either finds the habit marked, removes the date and leaves
  the reward counter as it was, or finds it unmarked, adds the date and takes the reward
  counter from a whole number \<open>b\<close> to \<open>b + 10\<close>.
\<close>

theorem toggleHabit_parity_and_reward:
  assumes "\<forall>j < length (habits s). (habit_id (habits s ! j) = id') = (j = i)"
    and "i < length (habits s)"
    and "\<forall>now \<in> set ts. toDateString hst now = today"
    and "rewards s = RNum (Fin (of_int r))"
    and "\<bar>r\<bar> + 10 * int (length ts) \<le> 2 ^ 53"
  shows "completed_on (habits (toggleHabit_calls hst ts id' s) ! i) today
           = (completed_on (habits s ! i) today \<noteq> odd (length ts))
         \<and> (\<forall>k < length ts.
               let before = toggleHabit_calls hst (take k ts) id' s;
                   after = toggleHabit_calls hst (take (Suc k) ts) id' s
               in if completed_on (habits before ! i) today
                  then \<not> completed_on (habits after ! i) today \<and> rewards after = rewards before
                  else completed_on (habits after ! i) today
                       \<and> (\<exists>b. rewards before = RNum (Fin (of_int b))
                               \<and> rewards after = RNum (Fin (of_int (b + 10)))))"
proof (intro conjI allI impI)
  show "completed_on (habits (toggleHabit_calls hst ts id' s) ! i) today
           = (completed_on (habits s ! i) today \<noteq> odd (length ts))"
    using assms(1,2,3) by (rule toggleHabit_calls_parity)
next
  fix k assume k: "k < length ts"
  let ?before = "toggleHabit_calls hst (take k ts) id' s"
  let ?after = "toggleHabit_calls hst (take (Suc k) ts) id' s"
  have step: "?after = toggleHabit hst (ts ! k) id' ?before"
    using k by (simp add: toggleHabit_calls_def take_Suc_conv_app_nth)
  have day: "toDateString hst (ts ! k) = today"
    using assms(3) k by simp
  have keep: "\<forall>j < length (habits ?before). (habit_id (habits ?before ! j) = id') = (j = i)"
    "i < length (habits ?before)"
    using toggleHabit_calls_keeps_only[OF assms(1,2)] by simp_all
  have "\<bar>r\<bar> + 10 * int (length (take k ts)) \<le> 2 ^ 53"
    using assms(5) k by simp
  from toggleHabit_calls_counter[OF assms(1,2,4) this]
  obtain b where b: "rewards ?before = RNum (Fin (of_int b))" "r \<le> b" "b \<le> r + 10 * int k"
    using k by auto
  have "\<bar>b + int 10\<bar> \<le> 2 ^ 53"
    using b(2,3) assms(5) k by simp
  then have plus: "plus_number (RNum (Fin (of_int b))) 10 = RNum (Fin (of_int (b + int 10)))"
    by (rule plus_number_whole)
  show "let before = ?before; after = ?after
        in if completed_on (habits before ! i) today
           then \<not> completed_on (habits after ! i) today \<and> rewards after = rewards before
           else completed_on (habits after ! i) today
                \<and> (\<exists>b. rewards before = RNum (Fin (of_int b))
                        \<and> rewards after = RNum (Fin (of_int (b + 10))))"
    using keep(2) plus
    by (simp add: Let_def step toggleHabit_once[OF keep] day completed_on_toggled b(1))
qed

theorem toggleHabit_parity_and_reward_witness:
  "map (toDateString utc_host) three_instants
     = [''Mon Nov 03 2025'', ''Mon Nov 03 2025'', ''Mon Nov 03 2025'']
   \<and> map habit_id (habits one_habit) = [1000]
   \<and> rewards one_habit = RNum (Fin 0)
   \<and> \<not> completed_on (habits one_habit ! 0) ''Mon Nov 03 2025''
   \<and> completed_on (habits (toggleHabit_calls utc_host three_instants 1000 one_habit) ! 0)
        ''Mon Nov 03 2025''
   \<and> rewards (toggleHabit_calls utc_host (take 1 three_instants) 1000 one_habit) = RNum (Fin 10)
   \<and> rewards (toggleHabit_calls utc_host (take 2 three_instants) 1000 one_habit) = RNum (Fin 10)
   \<and> rewards (toggleHabit_calls utc_host (take 3 three_instants) 1000 one_habit) = RNum (Fin 20)"
proof -
  have h1: "\<forall>j < length (habits one_habit). (habit_id (habits one_habit ! j) = 1000) = (j = 0)"
    by (simp add: one_habit_value)
  have h2: "0 < length (habits one_habit)"
    by (simp add: one_habit_value)
  have h3: "\<forall>now \<in> set three_instants. toDateString utc_host now = ''Mon Nov 03 2025''"
    using three_instants_day by (simp add: three_instants_def)
  have h5: "\<bar>0::int\<bar> + 10 * int (length three_instants) \<le> 2 ^ 53"
    by (simp add: three_instants_def)
  have start: "\<not> completed_on (habits one_habit ! 0) ''Mon Nov 03 2025''"
    by (simp add: one_habit_value completed_on_def opt_includes_def)
  have r0: "rewards (toggleHabit_calls utc_host (take 0 three_instants) 1000 one_habit)
              = RNum (Fin 0)"
    using one_habit_rewards by (simp add: toggleHabit_calls_def)
  note main = toggleHabit_parity_and_reward[OF h1 h2 h3 one_habit_rewards h5]
  have final: "completed_on (habits (toggleHabit_calls utc_host three_instants 1000 one_habit) ! 0)
        ''Mon Nov 03 2025''"
    using main start by (simp add: three_instants_def)
  have steps: "\<forall>k < 3.
               let before = toggleHabit_calls utc_host (take k three_instants) 1000 one_habit;
                   after = toggleHabit_calls utc_host (take (Suc k) three_instants) 1000 one_habit
               in if completed_on (habits before ! 0) ''Mon Nov 03 2025''
                  then \<not> completed_on (habits after ! 0) ''Mon Nov 03 2025''
                       \<and> rewards after = rewards before
                  else completed_on (habits after ! 0) ''Mon Nov 03 2025''
                       \<and> (\<exists>b. rewards before = RNum (Fin (of_int b))
                               \<and> rewards after = RNum (Fin (of_int (b + 10))))"
    using main by (simp add: three_instants_def)
  have b0: "\<not> completed_on
               (habits (toggleHabit_calls utc_host (take 0 three_instants) 1000 one_habit) ! 0)
               ''Mon Nov 03 2025''"
    using start by (simp add: toggleHabit_calls_def)
  have s1: "completed_on
              (habits (toggleHabit_calls utc_host (take 1 three_instants) 1000 one_habit) ! 0)
              ''Mon Nov 03 2025''
            \<and> rewards (toggleHabit_calls utc_host (take 1 three_instants) 1000 one_habit)
                = RNum (Fin 10)"
    using steps[rule_format, of 0] b0 r0 by (auto simp: Let_def)
  have s2: "\<not> completed_on
                (habits (toggleHabit_calls utc_host (take 2 three_instants) 1000 one_habit) ! 0)
                ''Mon Nov 03 2025''
            \<and> rewards (toggleHabit_calls utc_host (take 2 three_instants) 1000 one_habit)
                = RNum (Fin 10)"
    using steps[rule_format, of 1] s1 by (simp add: Let_def numeral_2_eq_2)
  have s3: "rewards (toggleHabit_calls utc_host (take 3 three_instants) 1000 one_habit)
              = RNum (Fin 20)"
    using steps[rule_format, of 2] s2 by (auto simp: Let_def numeral_3_eq_3 numeral_2_eq_2)
  show ?thesis
    using final s1 s2 s3 start three_instants_day one_habit_rewards
    by (simp add: one_habit_value)
qed

section \<open>Loans\<close>

lemma run_Cons: "run parseFloat (c # cs) s = run parseFloat cs (perform parseFloat c s)"
  by (simp add: run_def)

lemma perform_loan_inv:
  assumes "\<forall>l \<in> set (loans s). loan_inv l"
  shows "\<forall>l \<in> set (loans (perform parseFloat c s)). loan_inv l"
  using assms
  by (cases c)
    (auto simp: addHabit_def addTodo_def addExpense_def addNote_def addMemory_def addLoan_def
      addSleepSession_def toggleLoanReturn_def loan_inv_def is_timestamp_def is_null_def Let_def)

lemma run_loan_inv:
  assumes "\<forall>l \<in> set (loans s). loan_inv l"
  shows "\<forall>l \<in> set (loans (run parseFloat cs s)). loan_inv l"
  using assms
proof (induction cs arbitrary: s)
  case Nil
  then show ?case by (simp add: run_def)
next
  case (Cons c cs)
  show ?case
    unfolding run_Cons by (rule Cons.IH) (rule perform_loan_inv[OF Cons.prems])
qed

lemma sam_loans_value:
  "loans (run example_parseFloat sam_loan_calls initial_store) =
     [\<lparr>loan_id = 1000, loan_personName = ''Sam'', loan_amount = Fin 100, loan_note = ''lunch'',
       loan_returned = True, loan_dateGiven = 1000, loan_dateReturned = Val 2000\<rparr>]"
  by (simp add: sam_loan_calls_def run_def addLoan_def toggleLoanReturn_def initial_store_def
      example_parseFloat_def)

text \<open>
  Claim C3. After any sequence of calls of \<^verbatim>\<open>addLoan\<close> and \<^verbatim>\<open>toggleLoanReturn\<close> on the
  empty store, every loan is returned exactly when its date of return is a time stamp,
  and not returned exactly when it has none (the property is missing on a loan that was
  never returned, and null after a return was undone). On every store,
  \<^verbatim>\<open>toggleLoanReturn(id)\<close> negates \<^verbatim>\<open>returned\<close> on each loan with that id; it sets the
  date of return to the current instant when the loan was not returned and to null when
  it was.
\<close>

theorem loan_returned_iff_dateReturned:
  assumes "\<forall>c \<in> set cs. is_loan_call c"
  shows "(\<forall>l \<in> set (loans (run parseFloat cs initial_store)).
            (loan_returned l \<longleftrightarrow> is_timestamp (loan_dateReturned l))
            \<and> (\<not> loan_returned l \<longleftrightarrow> is_null (loan_dateReturned l)))
         \<and> (\<forall>k < length (loans s). loan_id (loans s ! k) = id' \<longrightarrow>
               loan_returned (loans (toggleLoanReturn now id' s) ! k)
                 = (\<not> loan_returned (loans s ! k))
               \<and> loan_dateReturned (loans (toggleLoanReturn now id' s) ! k)
                   = (if loan_returned (loans s ! k) then Null else Val now))"
proof
  have "\<forall>l \<in> set (loans initial_store). loan_inv l"
    by (simp add: initial_store_def)
  then have "\<forall>l \<in> set (loans (run parseFloat cs initial_store)). loan_inv l"
    by (rule run_loan_inv)
  then show "\<forall>l \<in> set (loans (run parseFloat cs initial_store)).
            (loan_returned l \<longleftrightarrow> is_timestamp (loan_dateReturned l))
            \<and> (\<not> loan_returned l \<longleftrightarrow> is_null (loan_dateReturned l))"
    unfolding loan_inv_def .
next
  show "\<forall>k < length (loans s). loan_id (loans s ! k) = id' \<longrightarrow>
               loan_returned (loans (toggleLoanReturn now id' s) ! k)
                 = (\<not> loan_returned (loans s ! k))
               \<and> loan_dateReturned (loans (toggleLoanReturn now id' s) ! k)
                   = (if loan_returned (loans s ! k) then Null else Val now)"
    by (simp add: toggleLoanReturn_def)
qed

theorem loan_returned_iff_dateReturned_witness:
  "map is_loan_call sam_loan_calls = [True, True]
   \<and> loan_returned (loans (run example_parseFloat sam_loan_calls initial_store) ! 0)
   \<and> is_timestamp
       (loan_dateReturned (loans (run example_parseFloat sam_loan_calls initial_store) ! 0))
   \<and> \<not> is_null
         (loan_dateReturned (loans (run example_parseFloat sam_loan_calls initial_store) ! 0))
   \<and> \<not> loan_returned
         (loans (toggleLoanReturn 3000 1000
                  (run example_parseFloat sam_loan_calls initial_store)) ! 0)
   \<and> loan_dateReturned
         (loans (toggleLoanReturn 3000 1000
                  (run example_parseFloat sam_loan_calls initial_store)) ! 0) = Null"
proof -
  let ?s = "run example_parseFloat sam_loan_calls initial_store"
  have h: "\<forall>c \<in> set sam_loan_calls. is_loan_call c"
    by (simp add: sam_loan_calls_def)
  note main = loan_returned_iff_dateReturned[OF h, of example_parseFloat ?s 1000 3000]
  have member: "loans ?s ! 0 \<in> set (loans ?s)"
    by (simp add: sam_loans_value)
  have inv: "(loan_returned (loans ?s ! 0) \<longleftrightarrow> is_timestamp (loan_dateReturned (loans ?s ! 0)))
             \<and> (\<not> loan_returned (loans ?s ! 0) \<longleftrightarrow> is_null (loan_dateReturned (loans ?s ! 0)))"
    using main member by blast
  have step: "loan_returned (loans (toggleLoanReturn 3000 1000 ?s) ! 0)
                = (\<not> loan_returned (loans ?s ! 0))
              \<and> loan_dateReturned (loans (toggleLoanReturn 3000 1000 ?s) ! 0)
                  = (if loan_returned (loans ?s ! 0) then Null else Val 3000)"
    using main by (simp add: sam_loans_value)
  have returned: "loan_returned (loans ?s ! 0)"
    by (simp add: sam_loans_value)
  have calls: "map is_loan_call sam_loan_calls = [True, True]"
    by (simp add: sam_loan_calls_def)
  show ?thesis
    using inv step returned calls by auto
qed

subsection \<open>Sums of whole amounts\<close>

lemma whole_obtain:
  assumes "whole y"
  obtains w where "y = Fin (of_int w)" and "whole_part y = w"
  using assms unfolding whole_def by blast

lemma sum_abs_nonneg: "0 \<le> sum_list (map (\<lambda>x. \<bar>g x\<bar>) xs)"
  for g :: "'a \<Rightarrow> int"
  by (induction xs) simp_all

lemma sum_abs_filter:
  "sum_list (map (\<lambda>x. \<bar>g x\<bar>) (filter P xs)) \<le> sum_list (map (\<lambda>x. \<bar>g x\<bar>) xs)"
  for g :: "'a \<Rightarrow> int"
proof (induction xs)
  case Nil
  then show ?case by simp
next
  case (Cons x xs)
  have "0 \<le> \<bar>g x\<bar>" by simp
  with Cons show ?case
    by (cases "P x") (simp_all add: add_increasing)
qed

lemma abs_sum_le: "\<bar>sum_list (map g xs)\<bar> \<le> sum_list (map (\<lambda>x. \<bar>g x\<bar>) xs)"
  for g :: "'a \<Rightarrow> int"
  by (induction xs) simp_all

lemma sum_list_partition_int:
  "sum_list (map g (filter (\<lambda>x. \<not> P x) xs)) = sum_list (map g xs) - sum_list (map g (filter P xs))"
  for g :: "'a \<Rightarrow> int"
  by (induction xs) simp_all

lemma reduce_sum_whole_acc:
  assumes "\<forall>x \<in> set xs. whole (f x)"
    and "\<bar>a\<bar> + sum_list (map (\<lambda>x. \<bar>whole_part (f x)\<bar>) xs) \<le> 2 ^ 53"
  shows "foldl (\<lambda>sum x. sum + f x) (Fin (of_int a)) xs
           = Fin (of_int (a + sum_list (map (\<lambda>x. whole_part (f x)) xs)))"
  using assms
proof (induction xs arbitrary: a)
  case Nil
  then show ?case by simp
next
  case (Cons x xs)
  from Cons.prems(1) have "whole (f x)" by simp
  then obtain w where w: "f x = Fin (of_int w)" "whole_part (f x) = w"
    by (rule whole_obtain)
  have w': "whole_part (Fin (of_int w)) = w"
    using w by simp
  have rest: "0 \<le> sum_list (map (\<lambda>x. \<bar>whole_part (f x)\<bar>) xs)"
    by (rule sum_abs_nonneg)
  have bound: "\<bar>a\<bar> + \<bar>w\<bar> + sum_list (map (\<lambda>x. \<bar>whole_part (f x)\<bar>) xs) \<le> 2 ^ 53"
    using Cons.prems(2) by (simp add: w(2))
  have "\<bar>a + w\<bar> \<le> 2 ^ 53"
    using bound rest by linarith
  then have step: "Fin (of_int a) + Fin (of_int w) = Fin (of_int (a + w))"
    by (rule plus_whole)
  have "\<bar>a + w\<bar> + sum_list (map (\<lambda>x. \<bar>whole_part (f x)\<bar>) xs) \<le> 2 ^ 53"
    using bound by linarith
  with Cons.prems(1)
  have "foldl (\<lambda>sum x. sum + f x) (Fin (of_int (a + w))) xs
          = Fin (of_int (a + w + sum_list (map (\<lambda>x. whole_part (f x)) xs)))"
    by (intro Cons.IH) simp_all
  then show ?case
    by (simp only: foldl_Cons w w' step list.map sum_list.Cons add.assoc)
qed

lemma reduce_sum_whole:
  assumes "\<forall>x \<in> set xs. whole (f x)"
    and "sum_list (map (\<lambda>x. \<bar>whole_part (f x)\<bar>) xs) \<le> 2 ^ 53"
  shows "reduce_sum f xs = Fin (of_int (sum_list (map (\<lambda>x. whole_part (f x)) xs)))"
  using reduce_sum_whole_acc[of xs f 0] assms by (simp add: reduce_sum_def zero_jsnum_def)

lemma pending_eq_lent_minus_returned:
  assumes "\<forall>l \<in> set ls. whole (loan_amount l)"
    and "sum_list (map (\<lambda>l. \<bar>whole_part (loan_amount l)\<bar>) ls) \<le> 2 ^ 53"
  shows "reduce_sum loan_amount (filter (\<lambda>l. \<not> loan_returned l) ls)
           = totalLent ls - totalReturned ls"
proof -
  let ?w = "\<lambda>l. whole_part (loan_amount l)"
  let ?pending = "sum_list (map ?w (filter (\<lambda>l. \<not> loan_returned l) ls))"
  have size: "sum_list (map (\<lambda>l. \<bar>?w l\<bar>) (filter P ls)) \<le> 2 ^ 53" for P
    using sum_abs_filter[of ?w P ls] assms(2) by linarith
  have p: "reduce_sum loan_amount (filter (\<lambda>l. \<not> loan_returned l) ls) = Fin (of_int ?pending)"
    using assms(1) size by (intro reduce_sum_whole) simp_all
  have t: "totalLent ls = Fin (of_int (sum_list (map ?w ls)))"
    unfolding totalLent_def using assms by (intro reduce_sum_whole) simp_all
  have r: "totalReturned ls = Fin (of_int (sum_list (map ?w (filter loan_returned ls))))"
    unfolding totalReturned_def using assms(1) size by (intro reduce_sum_whole) simp_all
  have "\<bar>?pending\<bar> \<le> 2 ^ 53"
    using abs_sum_le[of ?w "filter (\<lambda>l. \<not> loan_returned l) ls"]
      size[of "\<lambda>l. \<not> loan_returned l"] by linarith
  then have "\<bar>sum_list (map ?w ls) + - sum_list (map ?w (filter loan_returned ls))\<bar> \<le> 2 ^ 53"
    by (simp add: sum_list_partition_int)
  then have "Fin (of_int (sum_list (map ?w ls)))
               + Fin (of_int (- sum_list (map ?w (filter loan_returned ls))))
             = Fin (of_int (sum_list (map ?w ls) + - sum_list (map ?w (filter loan_returned ls))))"
    by (rule plus_whole)
  then have "totalLent ls - totalReturned ls = Fin (of_int ?pending)"
    unfolding t r by (simp add: minus_jsnum_def sum_list_partition_int)
  then show ?thesis
    using p by simp
qed

lemma perform_whole_amounts:
  assumes "\<forall>l \<in> set (loans s). whole (loan_amount l)" and "whole_amount parseFloat c"
  shows "\<forall>l \<in> set (loans (perform parseFloat c s)). whole (loan_amount l)"
  using assms
  by (cases c)
    (auto simp: addHabit_def addTodo_def addExpense_def addNote_def addMemory_def addLoan_def
      addSleepSession_def toggleLoanReturn_def Let_def)

lemma perform_amounts_size:
  "sum_list (map (\<lambda>l. \<bar>whole_part (loan_amount l)\<bar>) (loans (perform parseFloat c s)))
     = sum_list (map (\<lambda>l. \<bar>whole_part (loan_amount l)\<bar>) (loans s)) + amount_size parseFloat c"
proof -
  let ?size = "\<lambda>l. \<bar>whole_part (loan_amount l)\<bar>"
  have toggle: "sum_list (map ?size (loans (toggleLoanReturn now id' s)))
                  = sum_list (map ?size (loans s))" for now id'
  proof -
    have "map ?size (loans (toggleLoanReturn now id' s)) = map ?size (loans s)"
      by (simp add: toggleLoanReturn_def)
    then show ?thesis
      by (rule arg_cong)
  qed
  show ?thesis
    by (cases c)
      (simp_all add: toggle addHabit_def addTodo_def addExpense_def addNote_def addMemory_def
        addLoan_def addSleepSession_def Let_def)
qed

lemma run_whole_amounts:
  assumes "\<forall>l \<in> set (loans s). whole (loan_amount l)"
    and "\<forall>c \<in> set cs. whole_amount parseFloat c"
  shows "(\<forall>l \<in> set (loans (run parseFloat cs s)). whole (loan_amount l))
         \<and> sum_list (map (\<lambda>l. \<bar>whole_part (loan_amount l)\<bar>) (loans (run parseFloat cs s)))
             = sum_list (map (\<lambda>l. \<bar>whole_part (loan_amount l)\<bar>) (loans s))
               + amounts_size parseFloat cs"
  using assms
proof (induction cs arbitrary: s)
  case Nil
  then show ?case by (simp add: run_def amounts_size_def)
next
  case (Cons c cs)
  have "\<forall>l \<in> set (loans (perform parseFloat c s)). whole (loan_amount l)"
    using Cons.prems by (intro perform_whole_amounts) simp_all
  then have "(\<forall>l \<in> set (loans (run parseFloat cs (perform parseFloat c s))).
                whole (loan_amount l))
         \<and> sum_list (map (\<lambda>l. \<bar>whole_part (loan_amount l)\<bar>)
               (loans (run parseFloat cs (perform parseFloat c s))))
             = sum_list (map (\<lambda>l. \<bar>whole_part (loan_amount l)\<bar>)
                 (loans (perform parseFloat c s)))
               + amounts_size parseFloat cs"
    using Cons.prems(2) by (intro Cons.IH) simp_all
  then show ?case
    unfolding run_Cons perform_amounts_size by (simp add: amounts_size_def)
qed

text \<open>
  Claim C4, as stated, fails. The sums are sums of doubles, each rounded. With loans of
  0.1, 0.2 and 0.3 of which the first is returned, the pending total of the dashboard is
  0.2 + 0.3 = 0.5, while the total lent minus the total returned is
  (0.1 + 0.2 + 0.3) - 0.1 = 0.5000000000000001, the double
  \<open>4503599627370497 / 2 ^ 53\<close>.
\<close>

theorem pending_loans_rounding_counterexample:
  "pendingLoansAmount (run example_parseFloat dime_loan_calls initial_store) = Fin (1 / 2)
   \<and> totalLent (loans (run example_parseFloat dime_loan_calls initial_store))
       - totalReturned (loans (run example_parseFloat dime_loan_calls initial_store))
     = Fin (4503599627370497 / 9007199254740992)
   \<and> pendingLoansAmount (run example_parseFloat dime_loan_calls initial_store)
       \<noteq> totalLent (loans (run example_parseFloat dime_loan_calls initial_store))
           - totalReturned (loans (run example_parseFloat dime_loan_calls initial_store))"
  by code_simp

text \<open>
  A loan whose amount text is not a number stores \<^verbatim>\<open>NaN\<close>; once it is marked returned,
  the pending total is 0 while the total lent minus the total returned is \<^verbatim>\<open>NaN\<close>.
\<close>

lemma pending_loans_nan:
  "pendingLoansAmount (run example_parseFloat nan_loan_calls initial_store) = Fin 0
   \<and> totalLent (loans (run example_parseFloat nan_loan_calls initial_store))
       - totalReturned (loans (run example_parseFloat nan_loan_calls initial_store)) = NaN"
  by (simp add: nan_loan_calls_def run_def addLoan_def toggleLoanReturn_def initial_store_def
      pendingLoansAmount_def totalLent_def totalReturned_def reduce_sum_def
      example_parseFloat_def minus_jsnum_def zero_jsnum_def)

text \<open>
  Claim C4, amended. After any sequence of calls on the empty store in which every loan
  amount parses to a whole number and the sizes of these amounts add up to at most
  \<open>2 ^ 53\<close>, the pending total (the sum of the amounts of the loans not returned) equals
  the total lent minus the total returned: no sum on the way is rounded.
\<close>

theorem pending_loans_whole_amounts:
  assumes "\<forall>c \<in> set cs. whole_amount parseFloat c"
    and "amounts_size parseFloat cs \<le> 2 ^ 53"
  shows "pendingLoansAmount (run parseFloat cs initial_store)
           = totalLent (loans (run parseFloat cs initial_store))
             - totalReturned (loans (run parseFloat cs initial_store))"
proof -
  have "\<forall>l \<in> set (loans initial_store). whole (loan_amount l)"
    by (simp add: initial_store_def)
  from run_whole_amounts[OF this assms(1)]
  have "\<forall>l \<in> set (loans (run parseFloat cs initial_store)). whole (loan_amount l)"
    and "sum_list (map (\<lambda>l. \<bar>whole_part (loan_amount l)\<bar>)
           (loans (run parseFloat cs initial_store))) \<le> 2 ^ 53"
    using assms(2) by (simp_all add: initial_store_def)
  then show ?thesis
    unfolding pendingLoansAmount_def by (rule pending_eq_lent_minus_returned)
qed

theorem pending_loans_whole_amounts_witness:
  "map (whole_amount example_parseFloat) sam_loan_calls = [True, True]
   \<and> amounts_size example_parseFloat sam_loan_calls = 100
   \<and> pendingLoansAmount (run example_parseFloat sam_loan_calls initial_store)
       = totalLent (loans (run example_parseFloat sam_loan_calls initial_store))
         - totalReturned (loans (run example_parseFloat sam_loan_calls initial_store))
   \<and> pendingLoansAmount (run example_parseFloat sam_loan_calls initial_store) = Fin 0
   \<and> totalLent (loans (run example_parseFloat sam_loan_calls initial_store)) = Fin 100"
proof -
  have w: "map (whole_amount example_parseFloat) sam_loan_calls = [True, True]"
    by (simp add: sam_loan_calls_def example_parseFloat_def whole_def whole_part_def)
  have h1: "\<forall>c \<in> set sam_loan_calls. whole_amount example_parseFloat c"
    by (simp add: sam_loan_calls_def example_parseFloat_def whole_def whole_part_def)
  have n: "amounts_size example_parseFloat sam_loan_calls = 100"
    by (simp add: amounts_size_def sam_loan_calls_def example_parseFloat_def whole_part_def)
  have h2: "amounts_size example_parseFloat sam_loan_calls \<le> 2 ^ 53"
    unfolding n by simp
  have v: "pendingLoansAmount (run example_parseFloat sam_loan_calls initial_store) = Fin 0"
    by (simp add: pendingLoansAmount_def sam_loans_value reduce_sum_def zero_jsnum_def)
  have t: "totalLent (loans (run example_parseFloat sam_loan_calls initial_store)) = Fin 100"
    by code_simp
  show ?thesis
    using w n v t pending_loans_whole_amounts[OF h1 h2] by simp
qed

section \<open>Ids\<close>

lemma run_snoc: "run parseFloat (cs @ [c]) s = perform parseFloat c (run parseFloat cs s)"
  by (simp add: run_def)

lemma collection_ids_initial: "collection_ids initial_store = [[], [], [], [], [], [], []]"
  by (simp add: collection_ids_def initial_store_def)

lemma add_ids_sorted_wrt:
  assumes "\<forall>c \<in> set cs. is_add c" and "sorted_wrt R (map call_now cs)"
  shows "\<forall>ids \<in> set (collection_ids (run parseFloat cs initial_store)).
           sorted_wrt R ids \<and> set ids \<subseteq> set (map call_now cs)"
  using assms
proof (induction cs rule: rev_induct)
  case Nil
  then show ?case by (simp add: run_def collection_ids_initial)
next
  case (snoc c cs)
  have before: "\<forall>ids \<in> set (collection_ids (run parseFloat cs initial_store)).
           sorted_wrt R ids \<and> set ids \<subseteq> set (map call_now cs)"
    using snoc by (simp add: sorted_wrt_append)
  have later: "\<forall>x \<in> set (map call_now cs). R x (call_now c)"
    using snoc.prems(2) by (simp add: sorted_wrt_append)
  have add: "is_add c"
    using snoc.prems(1) by simp
  show ?case
    unfolding run_snoc using before later add
    by (cases c)
      (auto simp: collection_ids_def addHabit_def addTodo_def addExpense_def addNote_def
        addMemory_def addLoan_def addSleepSession_def Let_def sorted_wrt_append)
qed

text \<open>
  Claim C9, as stated, fails. Two habits added while \<^verbatim>\<open>Date.now()\<close> returns the same
  millisecond get the same id, although the readings do not decrease.
\<close>

theorem same_ms_ids_counterexample:
  "map is_add same_ms_adds = [True, True]
   \<and> sorted (map call_now same_ms_adds)
   \<and> map habit_id (habits (run example_parseFloat same_ms_adds initial_store)) = [1000, 1000]
   \<and> \<not> distinct (map habit_id (habits (run example_parseFloat same_ms_adds initial_store)))"
  by (simp add: same_ms_adds_def run_def addHabit_def initial_store_def)

text \<open>
  Claim C9, amended. After any sequence of \<^verbatim>\<open>add\<close> calls on the empty store: when the
  readings of \<^verbatim>\<open>Date.now()\<close> do not decrease from call to call, the ids of each
  collection do not decrease in collection order; when the readings increase strictly,
  the ids of each collection increase strictly, so they are unique and their order is the
  order of creation.
\<close>

theorem add_ids_follow_clock:
  assumes "\<forall>c \<in> set cs. is_add c"
  shows "(sorted (map call_now cs) \<longrightarrow>
            (\<forall>ids \<in> set (collection_ids (run parseFloat cs initial_store)). sorted ids))
         \<and> (sorted_wrt (<) (map call_now cs) \<longrightarrow>
            (\<forall>ids \<in> set (collection_ids (run parseFloat cs initial_store)).
               sorted_wrt (<) ids \<and> distinct ids))"
  using add_ids_sorted_wrt[OF assms, of "(\<le>)"] add_ids_sorted_wrt[OF assms, of "(<)"]
  by (auto simp: strict_sorted_iff)

theorem add_ids_follow_clock_witness:
  "map is_add spaced_adds = [True, True, True]
   \<and> map call_now spaced_adds = [1000, 1000, 1001]
   \<and> collection_ids (run example_parseFloat spaced_adds initial_store)
       = [[1000, 1001], [1000], [], [], [], [], []]
   \<and> sorted (map habit_id (habits (run example_parseFloat spaced_adds initial_store)))"
proof -
  have h: "\<forall>c \<in> set spaced_adds. is_add c"
    by (simp add: spaced_adds_def)
  have s: "sorted (map call_now spaced_adds)"
    by (simp add: spaced_adds_def)
  have ids: "collection_ids (run example_parseFloat spaced_adds initial_store)
               = [[1000, 1001], [1000], [], [], [], [], []]"
    by (simp add: spaced_adds_def run_def addHabit_def addTodo_def initial_store_def
        collection_ids_def)
  have mem: "map habit_id (habits (run example_parseFloat spaced_adds initial_store))
               \<in> set (collection_ids (run example_parseFloat spaced_adds initial_store))"
    by (simp add: collection_ids_def)
  have "sorted (map habit_id (habits (run example_parseFloat spaced_adds initial_store)))"
    using add_ids_follow_clock[OF h, of example_parseFloat] s mem by blast
  then show ?thesis
    using ids by (simp add: spaced_adds_def)
qed

section \<open>Calls with an id that no entity has\<close>

lemma map_rewards_absent:
  assumes "\<And>x r. key x \<noteq> k \<Longrightarrow> f x r = (x, r)" and "k \<notin> set (map key xs)"
  shows "map_rewards f xs r = (xs, r)"
  using assms by (induction xs arbitrary: r) auto

lemma filter_absent:
  assumes "k \<notin> key ` set xs"
  shows "filter (\<lambda>item. key item \<noteq> k) xs = xs"
  using assms by (induction xs) auto

text \<open>
  Claim C10. When no entity of the collection has the id \<open>id'\<close>, each of
  \<^verbatim>\<open>toggleHabit\<close>, \<^verbatim>\<open>toggleTodo\<close> and \<^verbatim>\<open>toggleLoanReturn\<close> returns the store it was given,
  and so does \<^verbatim>\<open>deleteItem(type, id)\<close> for the collection its type names (for a type
  with no setter it returns the store whatever the id). On the type names of the model
  (the seven keys of the table, and names the table has no property for) none of the
  operations has a path that throws.
\<close>

theorem absent_id_no_effect:
  "(id' \<notin> set (map habit_id (habits s)) \<longrightarrow> toggleHabit hst now id' s = s)
   \<and> (id' \<notin> set (map todo_id (todos s)) \<longrightarrow> toggleTodo id' s = s)
   \<and> (id' \<notin> set (map loan_id (loans s)) \<longrightarrow> toggleLoanReturn now id' s = s)
   \<and> (id' \<notin> set (targeted_ids type' s) \<longrightarrow> deleteItem type' id' s = s)"
proof (intro conjI impI)
  assume a: "id' \<notin> set (map habit_id (habits s))"
  have "map_rewards (toggleHabit_callback id' (toDateString hst now)) (habits s) (rewards s)
          = (habits s, rewards s)"
    using a by (intro map_rewards_absent[where key = habit_id and k = id'])
      (simp_all add: toggleHabit_callback_def)
  then show "toggleHabit hst now id' s = s"
    by (simp add: toggleHabit_def)
next
  assume a: "id' \<notin> set (map todo_id (todos s))"
  have "map_rewards (toggleTodo_callback id') (todos s) (rewards s) = (todos s, rewards s)"
    using a by (intro map_rewards_absent[where key = todo_id and k = id'])
      (simp_all add: toggleTodo_callback_def)
  then show "toggleTodo id' s = s"
    by (simp add: toggleTodo_def)
next
  assume a: "id' \<notin> set (map loan_id (loans s))"
  then have "map (\<lambda>l. if loan_id l = id'
                  then l\<lparr>loan_returned := \<not> loan_returned l,
                         loan_dateReturned := (if \<not> loan_returned l then Val now else Null)\<rparr>
                  else l) (loans s) = loans s"
    by (intro map_idI) auto
  then show "toggleLoanReturn now id' s = s"
    by (simp add: toggleLoanReturn_def)
next
  assume a: "id' \<notin> set (targeted_ids type' s)"
  show "deleteItem type' id' s = s"
  proof (cases "setters type'")
    case None
    then show ?thesis by (simp add: deleteItem_def)
  next
    case (Some st)
    then show ?thesis
      using a by (cases st) (simp_all add: deleteItem_def targeted_ids_def filter_absent)
  qed
qed

theorem absent_id_no_effect_witness:
  "targeted_ids ''todo'' two_todos = [1000, 2000]
   \<and> toggleHabit utc_host 1762128000000 3000 two_todos = two_todos
   \<and> toggleTodo 3000 two_todos = two_todos
   \<and> toggleLoanReturn 1762128000000 3000 two_todos = two_todos
   \<and> deleteItem ''todo'' 3000 two_todos = two_todos"
proof -
  have t: "targeted_ids ''todo'' two_todos = [1000, 2000]"
    by (simp add: targeted_ids_def setters_def two_todos_value)
  have a1: "3000 \<notin> set (map habit_id (habits two_todos))"
    by (simp add: two_todos_def addTodo_def initial_store_def)
  have a2: "3000 \<notin> set (map todo_id (todos two_todos))"
    by (simp add: two_todos_value)
  have a3: "3000 \<notin> set (map loan_id (loans two_todos))"
    by (simp add: two_todos_def addTodo_def initial_store_def)
  have a4: "3000 \<notin> set (targeted_ids ''todo'' two_todos)"
    by (simp add: t)
  show ?thesis
    using t a1 a2 a3 a4
      absent_id_no_effect[of 3000 two_todos utc_host 1762128000000 "''todo''"]
    by blast
qed

section \<open>Import and export\<close>

lemma import_steps:
  "(case x1 of Val v \<Rightarrow> s\<lparr>habits := v\<rparr> | _ \<Rightarrow> s)
     = s\<lparr>habits := (case x1 of Val v \<Rightarrow> v | _ \<Rightarrow> habits s)\<rparr>"
  "(case x2 of Val v \<Rightarrow> s\<lparr>todos := v\<rparr> | _ \<Rightarrow> s)
     = s\<lparr>todos := (case x2 of Val v \<Rightarrow> v | _ \<Rightarrow> todos s)\<rparr>"
  "(case x3 of Val v \<Rightarrow> s\<lparr>expenses := v\<rparr> | _ \<Rightarrow> s)
     = s\<lparr>expenses := (case x3 of Val v \<Rightarrow> v | _ \<Rightarrow> expenses s)\<rparr>"
  "(case x4 of Val v \<Rightarrow> s\<lparr>notes := v\<rparr> | _ \<Rightarrow> s)
     = s\<lparr>notes := (case x4 of Val v \<Rightarrow> v | _ \<Rightarrow> notes s)\<rparr>"
  "(case x5 of Val v \<Rightarrow> s\<lparr>memories := v\<rparr> | _ \<Rightarrow> s)
     = s\<lparr>memories := (case x5 of Val v \<Rightarrow> v | _ \<Rightarrow> memories s)\<rparr>"
  "(case x6 of Val v \<Rightarrow> s\<lparr>loans := v\<rparr> | _ \<Rightarrow> s)
     = s\<lparr>loans := (case x6 of Val v \<Rightarrow> v | _ \<Rightarrow> loans s)\<rparr>"
  "(case x7 of Val v \<Rightarrow> if truthy v then s\<lparr>rewards := v\<rparr> else s | _ \<Rightarrow> s)
     = s\<lparr>rewards := (case x7 of Val v \<Rightarrow> if truthy v then v else rewards s
                        | _ \<Rightarrow> rewards s)\<rparr>"
  "(case x8 of Val v \<Rightarrow> s\<lparr>sleepSessions := v\<rparr> | _ \<Rightarrow> s)
     = s\<lparr>sleepSessions := (case x8 of Val v \<Rightarrow> v | _ \<Rightarrow> sleepSessions s)\<rparr>"
  by (simp_all split: jsopt.split)

lemma setAllData_fields:
  "habits (setAllData d s) = (case doc_habits d of Val v \<Rightarrow> v | _ \<Rightarrow> habits s)"
  "todos (setAllData d s) = (case doc_todos d of Val v \<Rightarrow> v | _ \<Rightarrow> todos s)"
  "expenses (setAllData d s) = (case doc_expenses d of Val v \<Rightarrow> v | _ \<Rightarrow> expenses s)"
  "notes (setAllData d s) = (case doc_notes d of Val v \<Rightarrow> v | _ \<Rightarrow> notes s)"
  "memories (setAllData d s) = (case doc_memories d of Val v \<Rightarrow> v | _ \<Rightarrow> memories s)"
  "loans (setAllData d s) = (case doc_loans d of Val v \<Rightarrow> v | _ \<Rightarrow> loans s)"
  "rewards (setAllData d s)
     = (case doc_rewards d of Val v \<Rightarrow> if truthy v then v else rewards s | _ \<Rightarrow> rewards s)"
  "sleepSessions (setAllData d s)
     = (case doc_sleepSessions d of Val v \<Rightarrow> v | _ \<Rightarrow> sleepSessions s)"
  unfolding setAllData_def import_steps Let_def
  by (simp_all split: jsopt.split)

text \<open>
  Claim C2, as stated, fails. A document whose \<^verbatim>\<open>habits\<close> key is present and holds null
  does not replace the habits: the guard \<^verbatim>\<open>if (newData.habits)\<close> tests the value, and the
  store keeps the habits it had.
\<close>

theorem null_key_import_counterexample:
  "doc_habits null_habits_doc \<noteq> Undefined
   \<and> habits (setAllData null_habits_doc one_habit) = habits one_habit
   \<and> Val (habits (setAllData null_habits_doc one_habit)) \<noteq> doc_habits null_habits_doc"
  by (simp add: setAllData_fields null_habits_doc_def no_properties_def)

text \<open>
  Claim C2, amended. For every document whose \<^verbatim>\<open>rewards\<close> key does not hold 0 (or another
  falsy value that is not null: \<^verbatim>\<open>NaN\<close>, the empty string, \<^verbatim>\<open>false\<close>) and every
  store, import replaces each collection whose key holds an array by that array and the
  reward counter by the value its key holds, and leaves every field whose key is missing
  or holds null as it was. In particular a document with only \<^verbatim>\<open>rewards\<close> changes
  nothing but the reward counter.
\<close>

theorem setAllData_merges_values:
  assumes "\<forall>v. doc_rewards d = Val v \<longrightarrow> truthy v"
  shows "habits (setAllData d s) = (case doc_habits d of Val v \<Rightarrow> v | _ \<Rightarrow> habits s)
       \<and> todos (setAllData d s) = (case doc_todos d of Val v \<Rightarrow> v | _ \<Rightarrow> todos s)
       \<and> expenses (setAllData d s) = (case doc_expenses d of Val v \<Rightarrow> v | _ \<Rightarrow> expenses s)
       \<and> notes (setAllData d s) = (case doc_notes d of Val v \<Rightarrow> v | _ \<Rightarrow> notes s)
       \<and> memories (setAllData d s) = (case doc_memories d of Val v \<Rightarrow> v | _ \<Rightarrow> memories s)
       \<and> loans (setAllData d s) = (case doc_loans d of Val v \<Rightarrow> v | _ \<Rightarrow> loans s)
       \<and> rewards (setAllData d s) = (case doc_rewards d of Val v \<Rightarrow> v | _ \<Rightarrow> rewards s)
       \<and> sleepSessions (setAllData d s)
           = (case doc_sleepSessions d of Val v \<Rightarrow> v | _ \<Rightarrow> sleepSessions s)"
  using assms by (simp add: setAllData_fields split: jsopt.split)

theorem setAllData_merges_values_witness:
  "doc_rewards rewards_only_doc = Val (RNum (Fin 500))
   \<and> truthy (RNum (Fin 500))
   \<and> rewards (setAllData rewards_only_doc two_todos) = RNum (Fin 500)
   \<and> todos (setAllData rewards_only_doc two_todos) = todos two_todos
   \<and> habits (setAllData rewards_only_doc two_todos) = habits two_todos
   \<and> setAllData rewards_only_doc two_todos = two_todos\<lparr>rewards := RNum (Fin 500)\<rparr>
   \<and> importData example_parse ''{\"rewards\": 500}'' two_todos
       = (''Data imported successfully!'', two_todos\<lparr>rewards := RNum (Fin 500)\<rparr>)"
proof -
  have t: "truthy (RNum (Fin 500))"
    by (simp add: truthy_def)
  have h: "\<forall>v. doc_rewards rewards_only_doc = Val v \<longrightarrow> truthy v"
    by (simp add: rewards_only_doc_def t)
  note main = setAllData_merges_values[OF h, of two_todos]
  have fields: "habits (setAllData rewards_only_doc two_todos) = habits two_todos"
    "todos (setAllData rewards_only_doc two_todos) = todos two_todos"
    "expenses (setAllData rewards_only_doc two_todos) = expenses two_todos"
    "notes (setAllData rewards_only_doc two_todos) = notes two_todos"
    "memories (setAllData rewards_only_doc two_todos) = memories two_todos"
    "loans (setAllData rewards_only_doc two_todos) = loans two_todos"
    "rewards (setAllData rewards_only_doc two_todos) = RNum (Fin 500)"
    "sleepSessions (setAllData rewards_only_doc two_todos) = sleepSessions two_todos"
    using main by (simp_all add: rewards_only_doc_def no_properties_def)
  have whole: "setAllData rewards_only_doc two_todos = two_todos\<lparr>rewards := RNum (Fin 500)\<rparr>"
    by (rule store.equality) (simp_all add: fields)
  have parsed: "example_parse ''{\"rewards\": 500}'' = Some (JObject rewards_only_doc)"
    by (simp add: example_parse_def rewards_only_doc_def)
  have imported: "importData example_parse ''{\"rewards\": 500}'' two_todos
                    = (''Data imported successfully!'', two_todos\<lparr>rewards := RNum (Fin 500)\<rparr>)"
    by (simp add: importData_def parsed js_typeof_def properties_def whole)
  show ?thesis
    using fields whole imported t by (simp add: rewards_only_doc_def)
qed

lemma import_of_export:
  "setAllData (allData s exportDate) s'
     = s\<lparr>rewards := (if truthy (rewards s) then rewards s else rewards s')\<rparr>"
  by (rule store.equality) (simp_all add: setAllData_fields allData_def)

lemma importData_of_exportData:
  assumes "parse (stringify (allData s exportDate)) = Some (JObject (allData s exportDate))"
  shows "importData parse (exportData stringify s exportDate) s'
           = (''Data imported successfully!'',
              s\<lparr>rewards := (if truthy (rewards s) then rewards s else rewards s')\<rparr>)"
  using assms
  by (simp add: importData_def exportData_def js_typeof_def properties_def import_of_export)

text \<open>
  Claim C5 fails on the code at this input. A backup taken while the reward counter is 0 carries
  \<^verbatim>\<open>rewards: 0\<close>. Imported after the habit was done (10 points), it puts the habits back
  as they were exported but leaves the counter at 10: \<^verbatim>\<open>if (newData.rewards)\<close> skips the
  value 0, while the seven collections are restored even when they are empty.
\<close>

theorem import_skips_zero_rewards:
  "rewards one_habit = RNum (Fin 0)
   \<and> rewards habit_done = RNum (Fin 10)
   \<and> habits (setAllData (allData one_habit 1762128000000) habit_done) = habits one_habit
   \<and> rewards (setAllData (allData one_habit 1762128000000) habit_done) = RNum (Fin 10)
   \<and> rewards (setAllData (allData one_habit 1762128000000) habit_done) \<noteq> rewards one_habit"
proof -
  have r0: "rewards one_habit = RNum (Fin 0)"
    by (simp add: one_habit_def addHabit_def initial_store_def zero_jsnum_def)
  have r1: "rewards habit_done = RNum (Fin 10)"
    unfolding habit_done_def by code_simp
  show ?thesis
    by (simp add: import_of_export r0 r1 truthy_def)
qed

text \<open>
  The error branch of \<^verbatim>\<open>importData\<close>: when \<^verbatim>\<open>JSON.parse\<close> throws on the text of the
  file, or returns a primitive or null, the error alert is shown and the store is the one
  it was given.
\<close>

lemma importData_error_branch:
  assumes "parse text' = None \<or> parse text' = Some JNull \<or> parse text' = Some (JBool b)
           \<or> parse text' = Some (JNumber n) \<or> parse text' = Some (JString t)"
  shows "importData parse text' s = (''Error importing data. Please check the file format.'', s)"
  using assms by (auto simp: importData_def js_typeof_def)

lemma importData_error_examples:
  "importData example_parse ''{rewards'' two_todos
       = (''Error importing data. Please check the file format.'', two_todos)
   \<and> importData example_parse ''42'' two_todos
       = (''Error importing data. Please check the file format.'', two_todos)
   \<and> importData example_parse ''null'' two_todos
       = (''Error importing data. Please check the file format.'', two_todos)"
  by (simp add: importData_def example_parse_def js_typeof_def)

text \<open>
  Claim C7 fails on the code when the file holds an array, such as \<^verbatim>\<open>[1, 2]\<close>. An array
  is not an object of the document format, but \<^verbatim>\<open>typeof\<close> answers \<^verbatim>\<open>'object'\<close> for it
  and it is not null: it passes the check under the comment
  \<^verbatim>\<open>// Validate the imported data structure\<close>, none of the eight keys is found on it,
  nothing is imported, and the alert says \<^verbatim>\<open>Data imported successfully!\<close> where the
  claim has a format error.
\<close>

theorem importData_accepts_array:
  assumes "parse text' = Some JArray"
  shows "js_typeof JArray = ''object''
         \<and> importData parse text' s = (''Data imported successfully!'', s)
         \<and> fst (importData parse text' s)
             \<noteq> ''Error importing data. Please check the file format.''"
proof -
  have "setAllData no_properties s = s"
    by (rule store.equality) (simp_all add: setAllData_fields no_properties_def)
  then show ?thesis
    using assms by (simp add: importData_def js_typeof_def properties_def)
qed

theorem importData_accepts_array_witness:
  "example_parse ''[1, 2]'' = Some JArray
   \<and> importData example_parse ''[1, 2]'' two_todos = (''Data imported successfully!'', two_todos)"
proof -
  have p: "example_parse ''[1, 2]'' = Some JArray"
    by (simp add: example_parse_def)
  show ?thesis
    using p importData_accepts_array[of example_parse "''[1, 2]''" two_todos] by simp
qed

section \<open>The 7-day series\<close>

lemma count_fold_acc:
  "foldl (\<lambda>sum h. sum + (if P h then 1 else 0)) a xs = a + length (filter P xs)"
  for a :: nat
  by (induction xs arbitrary: a) simp_all

lemma reduce_sum_in_order: "reduce_sum f xs = sum_in_order (map f xs)"
  by (simp add: reduce_sum_def sum_in_order_def foldl_map)

lemma chart_point_spec:
  assumes "localDay hst now = today"
  shows "chart_point_at hst now i s = spec_day_record hst s (today - i)"
proof -
  have tasks:
    "(\<lambda>t. todo_completed t \<and> toDateString hst (todo_createdAt t) = dayString hst (today - i))
       = (\<lambda>t. toDateString hst (todo_createdAt t) = dayString hst (today - i)
               \<and> todo_completed t)"
    by auto
  show ?thesis
    unfolding chart_point_at_def spec_day_record_def Let_def assms
    by (simp add: count_fold_acc reduce_sum_in_order completed_on_def tasks)
qed

lemma getChartData_unrolled:
  "getChartData hst clock s =
     [chart_point_at hst (clock 6) 6 s, chart_point_at hst (clock 5) 5 s,
      chart_point_at hst (clock 4) 4 s, chart_point_at hst (clock 3) 3 s,
      chart_point_at hst (clock 2) 2 s, chart_point_at hst (clock 1) 1 s,
      chart_point_at hst (clock 0) 0 s]"
  by (simp add: getChartData_def)

text \<open>
  Claim C8. When the seven readings of the clock in the loop fall on the calendar day
  \<open>today\<close>, \<^verbatim>\<open>getChartData\<close> is the series of the specification: exactly 7 records, the
  record at position \<open>k\<close> being that of the day \<open>today - 6 + k\<close>, so the oldest day comes
  first and today last. The record of a day holds the number of habits whose completion
  dates include the date string of the day, the number of completed tasks whose creation
  date is the day (the date of completion plays no part), the sum of the expense amounts
  dated the day and the sum of the sleep durations dated the day.
\<close>

theorem getChartData_last7Days:
  assumes "\<forall>i \<in> {0..6}. localDay hst (clock i) = today"
  shows "length (getChartData hst clock s) = 7
         \<and> getChartData hst clock s = spec_last7DaysSeries hst today s
         \<and> (\<forall>k < 7. getChartData hst clock s ! k = spec_day_record hst s (today - 6 + int k))"
proof -
  have eq: "getChartData hst clock s = spec_last7DaysSeries hst today s"
    using assms
    by (simp add: getChartData_unrolled spec_last7DaysSeries_def chart_point_spec)
  have nth: "\<forall>k < 7. spec_last7DaysSeries hst today s ! k
                       = spec_day_record hst s (today - 6 + int k)"
  proof (intro allI impI)
    fix k :: nat assume "k < 7"
    then consider "k = 0" | "k = 1" | "k = 2" | "k = 3" | "k = 4" | "k = 5" | "k = 6"
      by linarith
    then show "spec_last7DaysSeries hst today s ! k = spec_day_record hst s (today - 6 + int k)"
      by cases (simp_all add: spec_last7DaysSeries_def)
  qed
  show ?thesis
    using eq nth by (simp add: spec_last7DaysSeries_def)
qed

lemma week_store_today:
  "spec_day_record utc_host week_store 20395 =
     \<lparr>cp_date = ''Nov 3'', cp_Habits = 1, cp_Tasks = 1, cp_Expenses = Fin (9 / 2),
      cp_Sleep = Fin 0\<rparr>"
  by code_simp

lemma week_store_yesterday:
  "spec_day_record utc_host week_store 20394 =
     \<lparr>cp_date = ''Nov 2'', cp_Habits = 0, cp_Tasks = 0, cp_Expenses = Fin 0,
      cp_Sleep = Fin (15 / 2)\<rparr>"
  by code_simp

theorem getChartData_last7Days_witness:
  "localDay utc_host 1762128000005 = 20395
   \<and> length (getChartData utc_host (\<lambda>i. 1762128000005) week_store) = 7
   \<and> getChartData utc_host (\<lambda>i. 1762128000005) week_store
       = spec_last7DaysSeries utc_host 20395 week_store
   \<and> getChartData utc_host (\<lambda>i. 1762128000005) week_store ! 5 =
       \<lparr>cp_date = ''Nov 2'', cp_Habits = 0, cp_Tasks = 0, cp_Expenses = Fin 0,
        cp_Sleep = Fin (15 / 2)\<rparr>
   \<and> getChartData utc_host (\<lambda>i. 1762128000005) week_store ! 6 =
       \<lparr>cp_date = ''Nov 3'', cp_Habits = 1, cp_Tasks = 1, cp_Expenses = Fin (9 / 2),
        cp_Sleep = Fin 0\<rparr>"
proof -
  have d: "localDay utc_host 1762128000005 = 20395"
    by (simp add: utc_host_def)
  have h: "\<forall>i \<in> {0..6}. localDay utc_host ((\<lambda>i. 1762128000005) i) = 20395"
    using d by simp
  note main = getChartData_last7Days[OF h, of week_store]
  have len: "length (getChartData utc_host (\<lambda>i. 1762128000005) week_store) = 7"
    by (rule conjunct1[OF main])
  have eq: "getChartData utc_host (\<lambda>i. 1762128000005) week_store
              = spec_last7DaysSeries utc_host 20395 week_store"
    by (rule conjunct1[OF conjunct2[OF main]])
  have p5: "getChartData utc_host (\<lambda>i. 1762128000005) week_store ! 5
              = spec_day_record utc_host week_store 20394"
    using main[THEN conjunct2, THEN conjunct2, rule_format, of 5] by simp
  have p6: "getChartData utc_host (\<lambda>i. 1762128000005) week_store ! 6
              = spec_day_record utc_host week_store 20395"
    using main[THEN conjunct2, THEN conjunct2, rule_format, of 6] by simp
  show ?thesis
    unfolding p5 p6 week_store_today week_store_yesterday
    using d len eq by blast
qed

end
